theory Spec2Isabelle
  imports Main "HOL-Library.Word"
begin

unbundle bit_operations_syntax

section \<open>JavaScript values\<close>

text \<open>
  The client handles \<^verbatim>\<open>Record<string, unknown>\<close> parameter objects and decoded JSON
  bodies. A value is one of the JSON-expressible JavaScript values or \<^verbatim>\<open>undefined\<close>.
  \<^item> A string is represented by the bytes of its UTF-8 encoding (\<open>string\<close> is a list of
    8-bit characters), which is what \<^verbatim>\<open>TextEncoder\<close> and \<^verbatim>\<open>URLSearchParams\<close> work on.
  \<^item> A number \<open>JNum n\<close> stands for the Number \<open>n\<close> when \<open>n\<close> is a safe integer (at most
    \<open>2^53 - 1\<close> in absolute value), where \<^verbatim>\<open>String(n)\<close> is the decimal numeral. The other
    Numbers (fractions, \<^verbatim>\<open>NaN\<close>, magnitudes that print with an exponent) are not
    represented; \<open>safe_value\<close> below says that a value stays inside the represented
    ones. The tool schemas declare every numeric parameter as an integer and send
    prices and quantities as decimal strings.
  \<^item> An object is the list of its own enumerable string-keyed properties in the order
    in which they were created. \<^verbatim>\<open>Object.entries\<close> does not enumerate in that order when
    a key is an array index: see \<open>Object_entries\<close> below.
\<close>

datatype jsval =
    JUndefined
  | JNull
  | JBool bool
  | JNum int
  | JStr string
  | JArr "jsval list"
  | JObj "(string \<times> jsval) list"

type_synonym jsobject = "(string \<times> jsval) list"

text \<open>Property read \<^verbatim>\<open>obj[k]\<close> on a plain object: \<^verbatim>\<open>undefined\<close> when the key is missing.\<close>

definition get_prop :: "jsobject \<Rightarrow> string \<Rightarrow> jsval" where
  "get_prop obj k = (case map_of obj k of None \<Rightarrow> JUndefined | Some v \<Rightarrow> v)"

text \<open>
  Property write as done by an object literal \<^verbatim>\<open>{...obj, k: v}\<close>: an existing key keeps its
  position and takes the new value, a new key is appended.
\<close>

fun set_prop :: "string \<Rightarrow> jsval \<Rightarrow> jsobject \<Rightarrow> jsobject" where
  "set_prop k v [] = [(k, v)]"
| "set_prop k v ((k', v') # ps) = (if k' = k then (k, v) # ps else (k', v') # set_prop k v ps)"

text \<open>ToBoolean: the falsy values are \<^verbatim>\<open>undefined\<close>, \<^verbatim>\<open>null\<close>, \<^verbatim>\<open>false\<close>, \<^verbatim>\<open>0\<close> and \<^verbatim>\<open>""\<close>.\<close>

fun truthy :: "jsval \<Rightarrow> bool" where
  "truthy JUndefined = False"
| "truthy JNull = False"
| "truthy (JBool b) = b"
| "truthy (JNum n) = (n \<noteq> 0)"
| "truthy (JStr s) = (s \<noteq> [])"
| "truthy (JArr _) = True"
| "truthy (JObj _) = True"



subsection \<open>\<^verbatim>\<open>Object.entries\<close>\<close>

text \<open>
  A property key is an array index when it is the canonical decimal numeral of an
  integer from 0 to \<open>2^32 - 2\<close>: digits only, no leading zero except for \<^verbatim>\<open>0\<close> itself.
\<close>

definition is_digit :: "char \<Rightarrow> bool" where
  "is_digit c \<longleftrightarrow> c \<in> set ''0123456789''"

definition decimal_value :: "string \<Rightarrow> nat" where
  "decimal_value s = foldl (\<lambda>a c. 10 * a + (of_char c - 48)) 0 s"

definition array_index :: "string \<Rightarrow> nat option" where
  "array_index k =
     (if k \<noteq> [] \<and> list_all is_digit k \<and> (k = ''0'' \<or> take 1 k \<noteq> ''0'')
         \<and> decimal_value k \<le> 4294967294
      then Some (decimal_value k) else None)"

definition is_index_entry :: "string \<times> jsval \<Rightarrow> bool" where
  "is_index_entry e \<longleftrightarrow> array_index (fst e) \<noteq> None"

definition index_of_entry :: "string \<times> jsval \<Rightarrow> nat" where
  "index_of_entry e = (case array_index (fst e) of None \<Rightarrow> 0 | Some i \<Rightarrow> i)"

text \<open>
  \<^verbatim>\<open>Object.entries(obj)\<close> follows the order of the own property keys: first the keys that
  are array indices, in ascending numeric order, then the other keys in the order of
  their creation. An object built by copying another (\<^verbatim>\<open>{...obj}\<close>, a rest pattern)
  creates its properties in the enumeration order of the source and so enumerates like
  the source; the model keeps the list of the source for it.
\<close>

definition Object_entries :: "jsobject \<Rightarrow> jsobject" where
  "Object_entries obj =
     sort_key index_of_entry (filter is_index_entry obj)
       @ filter (\<lambda>e. \<not> is_index_entry e) obj"

text \<open>The operator \<^verbatim>\<open>a || b\<close>.\<close>

definition js_or :: "jsval \<Rightarrow> jsval \<Rightarrow> jsval" where
  "js_or a b = (if truthy a then a else b)"

text \<open>The operator \<^verbatim>\<open>a ?? b\<close>, which the code does not use; kept for comparison.\<close>

definition js_nullish :: "jsval \<Rightarrow> jsval \<Rightarrow> jsval" where
  "js_nullish a b = (if a = JUndefined \<or> a = JNull then b else a)"

subsection \<open>Number and value to string\<close>

definition digit_char :: "nat \<Rightarrow> char" where
  "digit_char d = ''0123456789'' ! d"

fun show_nat :: "nat \<Rightarrow> string" where
  "show_nat n = (if n < 10 then [digit_char n] else show_nat (n div 10) @ [digit_char (n mod 10)])"

declare show_nat.simps [simp del]

definition show_int :: "int \<Rightarrow> string" where
  "show_int i = (if i < 0 then CHR ''-'' # show_nat (nat (- i)) else show_nat (nat i))"

fun join_with :: "string \<Rightarrow> string list \<Rightarrow> string" where
  "join_with sep [] = []"
| "join_with sep [x] = x"
| "join_with sep (x # y # ys) = x @ sep @ join_with sep (y # ys)"

text \<open>
  \<^verbatim>\<open>String(v)\<close>. An array joins the strings of its elements with a comma, where
  \<^verbatim>\<open>undefined\<close> and \<^verbatim>\<open>null\<close> elements give the empty string; a plain object gives
  \<^verbatim>\<open>[object Object]\<close>.
\<close>

fun String :: "jsval \<Rightarrow> string" where
  "String JUndefined = ''undefined''"
| "String JNull = ''null''"
| "String (JBool b) = (if b then ''true'' else ''false'')"
| "String (JNum n) = show_int n"
| "String (JStr s) = s"
| "String (JArr vs) =
     join_with '','' (map (\<lambda>v. if v = JUndefined \<or> v = JNull then [] else String v) vs)"
| "String (JObj _) = ''[object Object]''"

section \<open>The query canonicalizer\<close>

subsection \<open>\<^verbatim>\<open>URLSearchParams.prototype.toString\<close>\<close>

text \<open>
  The serializer of \<^verbatim>\<open>application/x-www-form-urlencoded\<close>: a byte is kept when it is an
  ASCII letter or digit or one of \<^verbatim>\<open>* - . _\<close>, a space becomes \<^verbatim>\<open>+\<close>, and every other byte
  becomes \<^verbatim>\<open>%\<close> followed by its two upper-case hexadecimal digits.
\<close>

definition form_safe :: "char \<Rightarrow> bool" where
  "form_safe c \<longleftrightarrow>
     c \<in> set ''*-._0123456789ABCDEFGHIJKLMNOPQRSTUVWXYZabcdefghijklmnopqrstuvwxyz''"

definition hex_upper :: "nat \<Rightarrow> char" where
  "hex_upper d = ''0123456789ABCDEF'' ! d"

definition form_encode_byte :: "char \<Rightarrow> string" where
  "form_encode_byte c =
     (if c = CHR '' '' then ''+''
      else if form_safe c then [c]
      else [CHR ''%'', hex_upper (of_char c div 16), hex_upper (of_char c mod 16)])"

definition form_encode :: "string \<Rightarrow> string" where
  "form_encode s = concat (map form_encode_byte s)"

text \<open>
  The serializer runs over the list of tuples with an output buffer: before every tuple
  but the first it appends \<^verbatim>\<open>&\<close>, then the encoded name, \<^verbatim>\<open>=\<close> and the encoded value.
\<close>

fun serialize_tuples :: "string \<Rightarrow> (string \<times> string) list \<Rightarrow> string" where
  "serialize_tuples output [] = output"
| "serialize_tuples output ((name, val) # ts) =
     serialize_tuples
       ((if output \<noteq> [] then output @ ''&'' else output)
          @ form_encode name @ ''='' @ form_encode val) ts"

definition URLSearchParams_toString :: "(string \<times> string) list \<Rightarrow> string" where
  "URLSearchParams_toString entries = serialize_tuples [] entries"

subsection \<open>\<^verbatim>\<open>BinanceClient.buildQueryString\<close>\<close>

definition buildQueryString :: "jsobject \<Rightarrow> string" where
  "buildQueryString params =
     (let entries =
        map (\<lambda>(k, v). (k, String v))
          (filter (\<lambda>(k, v). v \<noteq> JUndefined \<and> v \<noteq> JNull) (Object_entries params))
      in URLSearchParams_toString entries)"

subsection \<open>The canonical form as the specification words it\<close>

text \<open>
  Filter out the entries whose value is absent, stringify the remaining values,
  URL-encode, and join the \<^verbatim>\<open>key=value\<close> pairs with \<^verbatim>\<open>&\<close> in the insertion order of
  the mapping, with no re-sorting: the order of the list.
\<close>

definition absent :: "jsval \<Rightarrow> bool" where
  "absent v \<longleftrightarrow> v = JUndefined \<or> v = JNull"

definition present_entries :: "jsobject \<Rightarrow> (string \<times> string) list" where
  "present_entries P = [(k, String v). (k, v) \<leftarrow> P, \<not> absent v]"

fun enc_pair :: "string \<times> string \<Rightarrow> string" where
  "enc_pair (k, s) = form_encode k @ ''='' @ form_encode s"

definition canonical_spec :: "jsobject \<Rightarrow> string" where
  "canonical_spec P = join_with ''&'' (map enc_pair (present_entries P))"

subsection \<open>The standard parser of \<^verbatim>\<open>application/x-www-form-urlencoded\<close>\<close>

text \<open>
  Used to read a query string back: split at \<^verbatim>\<open>&\<close>, skip empty pieces, split each piece
  at its first \<^verbatim>\<open>=\<close>, turn \<^verbatim>\<open>+\<close> into a space and percent-decode name and value.
\<close>

fun split_on :: "char \<Rightarrow> string \<Rightarrow> string list" where
  "split_on c [] = [[]]"
| "split_on c (x # xs) =
     (if x = c then [] # split_on c xs
      else (case split_on c xs of [] \<Rightarrow> [[x]] | y # ys \<Rightarrow> (x # y) # ys))"

definition hex_val :: "char \<Rightarrow> nat option" where
  "hex_val c =
     (let n = (of_char c :: nat) in
      if 48 \<le> n \<and> n \<le> 57 then Some (n - 48)
      else if 65 \<le> n \<and> n \<le> 70 then Some (n - 55)
      else if 97 \<le> n \<and> n \<le> 102 then Some (n - 87)
      else None)"

fun percent_decode :: "string \<Rightarrow> string" where
  "percent_decode [] = []"
| "percent_decode [c] = [c]"
| "percent_decode [c, d] = [c, d]"
| "percent_decode (c # h # l # rest) =
     (if c = CHR ''%'' \<and> hex_val h \<noteq> None \<and> hex_val l \<noteq> None
      then char_of (16 * the (hex_val h) + the (hex_val l)) # percent_decode rest
      else c # percent_decode (h # l # rest))"

definition plus_to_space :: "string \<Rightarrow> string" where
  "plus_to_space s = map (\<lambda>c. if c = CHR ''+'' then CHR '' '' else c) s"

definition parse_piece :: "string \<Rightarrow> string \<times> string" where
  "parse_piece bytes =
     (let name = takeWhile (\<lambda>c. c \<noteq> CHR ''='') bytes;
          val = (if CHR ''='' \<in> set bytes then tl (dropWhile (\<lambda>c. c \<noteq> CHR ''='') bytes) else [])
      in (percent_decode (plus_to_space name), percent_decode (plus_to_space val)))"

definition parse_urlencoded :: "string \<Rightarrow> (string \<times> string) list" where
  "parse_urlencoded input = map parse_piece (filter (\<lambda>bytes. bytes \<noteq> []) (split_on CHR ''&'' input))"

section \<open>The signing primitive\<close>

subsection \<open>SHA-256 and HMAC, as \<^verbatim>\<open>crypto.subtle\<close> computes them\<close>

text \<open>
  \<^verbatim>\<open>crypto.subtle.sign('HMAC', key, data)\<close> with hash \<^verbatim>\<open>SHA-256\<close> is the platform's; it is
  modelled after FIPS 180-4 (SHA-256) and RFC 2104 (HMAC) on bytes and 32-bit words.
\<close>

type_synonym byte = "8 word"
type_synonym w32 = "32 word"
type_synonym hstate = "w32 \<times> w32 \<times> w32 \<times> w32 \<times> w32 \<times> w32 \<times> w32 \<times> w32"

definition K256 :: "w32 list" where
  "K256 =
    [0x428A2F98, 0x71374491, 0xB5C0FBCF, 0xE9B5DBA5, 0x3956C25B, 0x59F111F1, 0x923F82A4, 0xAB1C5ED5,
     0xD807AA98, 0x12835B01, 0x243185BE, 0x550C7DC3, 0x72BE5D74, 0x80DEB1FE, 0x9BDC06A7, 0xC19BF174,
     0xE49B69C1, 0xEFBE4786, 0x0FC19DC6, 0x240CA1CC, 0x2DE92C6F, 0x4A7484AA, 0x5CB0A9DC, 0x76F988DA,
     0x983E5152, 0xA831C66D, 0xB00327C8, 0xBF597FC7, 0xC6E00BF3, 0xD5A79147, 0x06CA6351, 0x14292967,
     0x27B70A85, 0x2E1B2138, 0x4D2C6DFC, 0x53380D13, 0x650A7354, 0x766A0ABB, 0x81C2C92E, 0x92722C85,
     0xA2BFE8A1, 0xA81A664B, 0xC24B8B70, 0xC76C51A3, 0xD192E819, 0xD6990624, 0xF40E3585, 0x106AA070,
     0x19A4C116, 0x1E376C08, 0x2748774C, 0x34B0BCB5, 0x391C0CB3, 0x4ED8AA4A, 0x5B9CCA4F, 0x682E6FF3,
     0x748F82EE, 0x78A5636F, 0x84C87814, 0x8CC70208, 0x90BEFFFA, 0xA4506CEB, 0xBEF9A3F7, 0xC67178F2]"

definition H0 :: hstate where
  "H0 = (0x6A09E667, 0xBB67AE85, 0x3C6EF372, 0xA54FF53A,
         0x510E527F, 0x9B05688C, 0x1F83D9AB, 0x5BE0CD19)"

definition rotr :: "nat \<Rightarrow> w32 \<Rightarrow> w32" where
  "rotr n x = drop_bit n x OR push_bit (32 - n) x"

definition Ch :: "w32 \<Rightarrow> w32 \<Rightarrow> w32 \<Rightarrow> w32" where
  "Ch x y z = (x AND y) XOR (NOT x AND z)"

definition Maj :: "w32 \<Rightarrow> w32 \<Rightarrow> w32 \<Rightarrow> w32" where
  "Maj x y z = (x AND y) XOR (x AND z) XOR (y AND z)"

definition Sigma0 :: "w32 \<Rightarrow> w32" where
  "Sigma0 x = rotr 2 x XOR rotr 13 x XOR rotr 22 x"

definition Sigma1 :: "w32 \<Rightarrow> w32" where
  "Sigma1 x = rotr 6 x XOR rotr 11 x XOR rotr 25 x"

definition sigma0 :: "w32 \<Rightarrow> w32" where
  "sigma0 x = rotr 7 x XOR rotr 18 x XOR drop_bit 3 x"

definition sigma1 :: "w32 \<Rightarrow> w32" where
  "sigma1 x = rotr 17 x XOR rotr 19 x XOR drop_bit 10 x"

definition be32 :: "w32 \<Rightarrow> byte list" where
  "be32 w = [ucast (drop_bit 24 w), ucast (drop_bit 16 w), ucast (drop_bit 8 w), ucast w]"

definition be64 :: "64 word \<Rightarrow> byte list" where
  "be64 w = map (\<lambda>i. ucast (drop_bit (8 * (7 - i)) w)) [0..<8]"

definition word_of_bytes :: "byte list \<Rightarrow> w32" where
  "word_of_bytes bs = foldl (\<lambda>acc b. push_bit 8 acc OR ucast b) 0 bs"

primrec words_of_block :: "nat \<Rightarrow> byte list \<Rightarrow> w32 list" where
  "words_of_block 0 bs = []"
| "words_of_block (Suc n) bs = word_of_bytes (take 4 bs) # words_of_block n (drop 4 bs)"

primrec extend_schedule :: "nat \<Rightarrow> w32 list \<Rightarrow> w32 list" where
  "extend_schedule 0 ws = ws"
| "extend_schedule (Suc n) ws =
     (let t = length ws in
      extend_schedule n
        (ws @ [sigma1 (ws ! (t - 2)) + ws ! (t - 7) + sigma0 (ws ! (t - 15)) + ws ! (t - 16)]))"

definition schedule :: "byte list \<Rightarrow> w32 list" where
  "schedule block = extend_schedule 48 (words_of_block 16 block)"

definition round256 :: "hstate \<Rightarrow> w32 \<times> w32 \<Rightarrow> hstate" where
  "round256 s kw =
     (case s of (a, b, c, d, e, f, g, h) \<Rightarrow> case kw of (k, w) \<Rightarrow>
        let T1 = h + Sigma1 e + Ch e f g + k + w;
            T2 = Sigma0 a + Maj a b c
        in (T1 + T2, a, b, c, d + T1, e, f, g))"

definition add_state :: "hstate \<Rightarrow> hstate \<Rightarrow> hstate" where
  "add_state s t =
     (case s of (a, b, c, d, e, f, g, h) \<Rightarrow> case t of (a', b', c', d', e', f', g', h') \<Rightarrow>
        (a + a', b + b', c + c', d + d', e + e', f + f', g + g', h + h'))"

definition compress :: "hstate \<Rightarrow> byte list \<Rightarrow> hstate" where
  "compress H block = add_state H (foldl round256 H (zip K256 (schedule block)))"

definition pad :: "byte list \<Rightarrow> byte list" where
  "pad m = m @ [0x80] @ replicate ((119 - length m mod 64) mod 64) 0 @ be64 (8 * of_nat (length m))"

primrec take_blocks :: "nat \<Rightarrow> byte list \<Rightarrow> byte list list" where
  "take_blocks 0 bs = []"
| "take_blocks (Suc n) bs = take 64 bs # take_blocks n (drop 64 bs)"

definition digest :: "hstate \<Rightarrow> byte list" where
  "digest s =
     (case s of (a, b, c, d, e, f, g, h) \<Rightarrow>
        be32 a @ be32 b @ be32 c @ be32 d @ be32 e @ be32 f @ be32 g @ be32 h)"

definition sha256 :: "byte list \<Rightarrow> byte list" where
  "sha256 m = (let p = pad m in digest (foldl compress H0 (take_blocks (length p div 64) p)))"

definition hmac_key_block :: "byte list \<Rightarrow> byte list" where
  "hmac_key_block k =
     (let k' = (if length k > 64 then sha256 k else k) in k' @ replicate (64 - length k') 0)"

definition hmac_sha256 :: "byte list \<Rightarrow> byte list \<Rightarrow> byte list" where
  "hmac_sha256 k m =
     (let kb = hmac_key_block k
      in sha256 (map (\<lambda>b. b XOR 0x5C) kb @ sha256 (map (\<lambda>b. b XOR 0x36) kb @ m)))"

subsection \<open>\<^verbatim>\<open>hmacSha256Hex\<close>\<close>

datatype js_error =
    Error string
  | TypeError
  | SyntaxError
  | DataError
  | NetworkError

text \<open>
  \<^verbatim>\<open>Error m\<close> is \<^verbatim>\<open>new Error(m)\<close>; \<^verbatim>\<open>TypeError\<close> is a property read on \<^verbatim>\<open>null\<close> or
  \<^verbatim>\<open>undefined\<close>; \<^verbatim>\<open>SyntaxError\<close> is \<^verbatim>\<open>JSON.parse\<close> on text that is not JSON;
  \<^verbatim>\<open>DataError\<close> is \<^verbatim>\<open>crypto.subtle.importKey\<close> refusing an HMAC key of length zero (step 6
  of the Web Cryptography API's HMAC import); \<^verbatim>\<open>NetworkError\<close> is \<^verbatim>\<open>fetch\<close> rejecting.
\<close>

definition TextEncoder_encode :: "string \<Rightarrow> byte list" where
  "TextEncoder_encode s = map (\<lambda>c. of_nat (of_char c)) s"

definition hex_lower :: "nat \<Rightarrow> char" where
  "hex_lower d = ''0123456789abcdef'' ! d"

text \<open>\<^verbatim>\<open>b.toString(16)\<close> for a byte: one digit below 16, two digits otherwise.\<close>

definition toString16 :: "byte \<Rightarrow> string" where
  "toString16 b =
     (if unat b < 16 then [hex_lower (unat b)]
      else [hex_lower (unat b div 16), hex_lower (unat b mod 16)])"

text \<open>\<^verbatim>\<open>s.padStart(n, '0')\<close>.\<close>

definition padStart0 :: "nat \<Rightarrow> string \<Rightarrow> string" where
  "padStart0 n s = replicate (n - length s) CHR ''0'' @ s"

text \<open>
  \<^verbatim>\<open>crypto.subtle.importKey('raw', encoder.encode(key), { name: 'HMAC', hash: 'SHA-256' }, ...)\<close>
  rejects key data of length zero: step 6 of the HMAC import of the Web Cryptography API
  reads \<^verbatim>\<open>If length is zero then throw a DataError\<close> (the message of Node.js is
  \<^verbatim>\<open>Zero-length key is not supported\<close>).
  Any other key is imported as it is and \<^verbatim>\<open>crypto.subtle.sign\<close> computes the HMAC.
\<close>

definition hmacSha256Hex :: "string \<Rightarrow> string \<Rightarrow> js_error + string" where
  "hmacSha256Hex key data =
     (if TextEncoder_encode key = [] then Inl DataError
      else
        let signature = hmac_sha256 (TextEncoder_encode key) (TextEncoder_encode data)
        in Inr (concat (map (\<lambda>b. padStart0 2 (toString16 b)) signature)))"

definition is_lower_hex :: "char \<Rightarrow> bool" where
  "is_lower_hex c \<longleftrightarrow> c \<in> set ''0123456789abcdef''"

section \<open>The exchange transport\<close>

subsection \<open>Requests, responses and the platform\<close>

record request =
  req_url :: string
  req_method :: string
  req_headers :: "(string \<times> string) list"
  req_body :: "string option"

record response =
  status :: nat
  statusText :: string
  body_text :: string

text \<open>\<^verbatim>\<open>response.ok\<close>: the status is in the range 200 to 299.\<close>

definition ok :: "response \<Rightarrow> bool" where
  "ok r \<longleftrightarrow> 200 \<le> status r \<and> status r \<le> 299"

text \<open>
  What the client takes from its platform: \<^verbatim>\<open>JSON.parse\<close> (\<open>None\<close> when it throws),
  \<^verbatim>\<open>JSON.stringify(v, null, 2)\<close>, the message text of the errors the platform raises, and
  the remote side. The remote answers a request knowing the requests sent before it;
  \<open>None\<close> is a network failure.
\<close>

record platform =
  JSON_parse :: "string \<Rightarrow> jsval option"
  JSON_stringify :: "jsval \<Rightarrow> string"
  platform_message :: "js_error \<Rightarrow> string"
  remote :: "request list \<Rightarrow> request \<Rightarrow> response option"

text \<open>
  An operation that talks to the network takes the list of requests sent so far and
  returns its outcome (a thrown error or a value) with the list extended by its own
  requests.
\<close>

type_synonym 'a io = "request list \<Rightarrow> (js_error + 'a) \<times> request list"

definition fetch :: "platform \<Rightarrow> request \<Rightarrow> response io" where
  "fetch pf req sent =
     ((case remote pf sent req of None \<Rightarrow> Inl NetworkError | Some r \<Rightarrow> Inr r), sent @ [req])"

text \<open>
  A property read \<^verbatim>\<open>v.k\<close> on a value of unknown type, for the keys the client reads
  (\<^verbatim>\<open>msg\<close>, \<^verbatim>\<open>message\<close>, \<^verbatim>\<open>code\<close>, \<^verbatim>\<open>serverTime\<close>): it throws on \<^verbatim>\<open>null\<close> and
  \<^verbatim>\<open>undefined\<close> and gives \<^verbatim>\<open>undefined\<close> on a primitive or an array.
\<close>

fun read_member :: "jsval \<Rightarrow> string \<Rightarrow> js_error + jsval" where
  "read_member JUndefined k = Inl TypeError"
| "read_member JNull k = Inl TypeError"
| "read_member (JObj ps) k = Inr (get_prop ps k)"
| "read_member v k = Inr JUndefined"

subsection \<open>The error of a response that is not ok\<close>

text \<open>
  \<^verbatim>\<open>const error = await response.json().catch(() => ({}));\<close>
  \<^verbatim>\<open>throw new Error(`Binance API Error ${response.status}: ${error.msg || error.ALT || response.statusText}`)\<close>
  where \<^verbatim>\<open>ALT\<close> is \<^verbatim>\<open>message\<close> in \<^verbatim>\<open>publicGet\<close> and \<^verbatim>\<open>code\<close> in the other two modes.
\<close>

definition error_detail :: "jsval \<Rightarrow> string \<Rightarrow> string \<Rightarrow> js_error + jsval" where
  "error_detail error alt fallback =
     (case read_member error ''msg'' of
        Inl e \<Rightarrow> Inl e
      | Inr m \<Rightarrow>
          if truthy m then Inr m
          else (case read_member error alt of
                  Inl e \<Rightarrow> Inl e
                | Inr c \<Rightarrow> Inr (js_or c (JStr fallback))))"

definition api_error :: "platform \<Rightarrow> string \<Rightarrow> response \<Rightarrow> js_error" where
  "api_error pf alt response =
     (let error = (case JSON_parse pf (body_text response) of None \<Rightarrow> JObj [] | Some v \<Rightarrow> v)
      in case error_detail error alt (statusText response) of
           Inl e \<Rightarrow> e
         | Inr d \<Rightarrow>
             Error (''Binance API Error '' @ show_nat (status response) @ '': '' @ String d))"

subsection \<open>\<^verbatim>\<open>publicGet\<close> and \<^verbatim>\<open>getServerTime\<close>\<close>

record BinanceConfig =
  apiKey :: string
  secretKey :: string

definition baseUrl :: string where
  "baseUrl = ''https://api.binance.com''"

text \<open>The URL of the two modes that put their parameters into the query.\<close>

definition query_url :: "string \<Rightarrow> jsobject option \<Rightarrow> string" where
  "query_url endpoint params =
     (let url = baseUrl @ endpoint in
      case params of
        None \<Rightarrow> url
      | Some ps \<Rightarrow> (let qs = buildQueryString ps in if qs \<noteq> [] then url @ ''?'' @ qs else url))"

definition publicGet :: "platform \<Rightarrow> string \<Rightarrow> jsobject option \<Rightarrow> jsval io" where
  "publicGet pf endpoint params sent =
     (case fetch pf \<lparr>req_url = query_url endpoint params, req_method = ''GET'',
                     req_headers = [], req_body = None\<rparr> sent of
        (Inl e, sent') \<Rightarrow> (Inl e, sent')
      | (Inr response, sent') \<Rightarrow>
          if \<not> ok response then (Inl (api_error pf ''message'' response), sent')
          else (case JSON_parse pf (body_text response) of
                  None \<Rightarrow> (Inl SyntaxError, sent')
                | Some v \<Rightarrow> (Inr v, sent')))"

definition getServerTime :: "platform \<Rightarrow> jsval io" where
  "getServerTime pf sent =
     (case publicGet pf ''/api/v3/time'' None sent of
        (Inl e, sent') \<Rightarrow> (Inl e, sent')
      | (Inr data, sent') \<Rightarrow> (read_member data ''serverTime'', sent'))"

subsection \<open>\<^verbatim>\<open>signedRequest\<close>\<close>

text \<open>
  \<^verbatim>\<open>const allParams = { ...params, timestamp: serverTime,\<close>
  \<^verbatim>\<open>                    recvWindow: (params?.recvWindow as number) || 5000 };\<close>
\<close>

definition allParams :: "jsobject option \<Rightarrow> jsval \<Rightarrow> jsobject" where
  "allParams params serverTime =
     set_prop ''recvWindow''
       (js_or (case params of None \<Rightarrow> JUndefined | Some ps \<Rightarrow> get_prop ps ''recvWindow'')
          (JNum 5000))
       (set_prop ''timestamp'' serverTime (case params of None \<Rightarrow> [] | Some ps \<Rightarrow> ps))"

text \<open>The \<^verbatim>\<open>url\<close> and \<^verbatim>\<open>fetchOpts\<close> of a signed request, from the signed query string.\<close>

definition signed_wire_request :: "BinanceConfig \<Rightarrow> string \<Rightarrow> string \<Rightarrow> string \<Rightarrow> request" where
  "signed_wire_request config method endpoint signedQs =
     \<lparr>req_url =
        (if method = ''GET'' \<or> method = ''DELETE'' then baseUrl @ endpoint @ ''?'' @ signedQs
         else baseUrl @ endpoint),
      req_method = method,
      req_headers =
        [(''X-MBX-APIKEY'', apiKey config)]
          @ (if method = ''POST'' then [(''Content-Type'', ''application/x-www-form-urlencoded'')]
             else []),
      req_body = (if method = ''POST'' then Some signedQs else None)\<rparr>"

text \<open>
  \<^verbatim>\<open>const text = await response.text(); if (!text) return {}; return JSON.parse(text);\<close>
\<close>

definition read_success :: "platform \<Rightarrow> response \<Rightarrow> js_error + jsval" where
  "read_success pf response =
     (let text = body_text response in
      if text = [] then Inr (JObj [])
      else (case JSON_parse pf text of None \<Rightarrow> Inl SyntaxError | Some v \<Rightarrow> Inr v))"

definition signedRequest ::
  "platform \<Rightarrow> BinanceConfig \<Rightarrow> string \<Rightarrow> string \<Rightarrow> jsobject option \<Rightarrow> jsval io" where
  "signedRequest pf config method endpoint params sent =
     (case getServerTime pf sent of
        (Inl e, sent1) \<Rightarrow> (Inl e, sent1)
      | (Inr serverTime, sent1) \<Rightarrow>
          (let queryString = buildQueryString (allParams params serverTime) in
           case hmacSha256Hex (secretKey config) queryString of
             Inl e \<Rightarrow> (Inl e, sent1)
           | Inr signature \<Rightarrow>
               (let signedQs = queryString @ ''&signature='' @ signature in
                case fetch pf (signed_wire_request config method endpoint signedQs) sent1 of
                  (Inl e, sent2) \<Rightarrow> (Inl e, sent2)
                | (Inr response, sent2) \<Rightarrow>
                    if \<not> ok response then (Inl (api_error pf ''code'' response), sent2)
                    else (read_success pf response, sent2))))"

subsection \<open>\<^verbatim>\<open>userStreamRequest\<close>\<close>

definition userStreamRequest ::
  "platform \<Rightarrow> BinanceConfig \<Rightarrow> string \<Rightarrow> string \<Rightarrow> jsobject option \<Rightarrow> jsval io" where
  "userStreamRequest pf config method endpoint params sent =
     (case fetch pf \<lparr>req_url = query_url endpoint params, req_method = method,
                     req_headers = [(''X-MBX-APIKEY'', apiKey config)], req_body = None\<rparr> sent of
        (Inl e, sent') \<Rightarrow> (Inl e, sent')
      | (Inr response, sent') \<Rightarrow>
          if \<not> ok response then (Inl (api_error pf ''code'' response), sent')
          else (read_success pf response, sent'))"

section \<open>The operation facade\<close>

text \<open>One constructor per method of \<^verbatim>\<open>BinanceClient\<close>, with the argument it is called with.\<close>

datatype facade_call =
    ping
  | getServerTimePublic
  | getExchangeInfo "jsobject option"
  | getOrderBook jsobject
  | getRecentTrades jsobject
  | getAggregateTrades jsobject
  | getKlines jsobject
  | getAvgPrice jsobject
  | getTicker24hr "jsobject option"
  | getTickerPrice "jsobject option"
  | getBookTicker "jsobject option"
  | newOrder jsobject
  | testOrder jsobject
  | queryOrder jsobject
  | cancelOrder jsobject
  | cancelAllOrders jsobject
  | getOpenOrders "jsobject option"
  | getAllOrders jsobject
  | getAccountInfo "jsobject option"
  | getMyTrades jsobject
  | createListenKey
  | keepaliveListenKey jsval
  | closeListenKey jsval

fun invoke :: "platform \<Rightarrow> BinanceConfig \<Rightarrow> facade_call \<Rightarrow> jsval io" where
  "invoke pf c ping = publicGet pf ''/api/v3/ping'' None"
| "invoke pf c getServerTimePublic = publicGet pf ''/api/v3/time'' None"
| "invoke pf c (getExchangeInfo params) = publicGet pf ''/api/v3/exchangeInfo'' params"
| "invoke pf c (getOrderBook params) = publicGet pf ''/api/v3/depth'' (Some params)"
| "invoke pf c (getRecentTrades params) = publicGet pf ''/api/v3/trades'' (Some params)"
| "invoke pf c (getAggregateTrades params) = publicGet pf ''/api/v3/aggTrades'' (Some params)"
| "invoke pf c (getKlines params) = publicGet pf ''/api/v3/klines'' (Some params)"
| "invoke pf c (getAvgPrice params) = publicGet pf ''/api/v3/avgPrice'' (Some params)"
| "invoke pf c (getTicker24hr params) = publicGet pf ''/api/v3/ticker/24hr'' params"
| "invoke pf c (getTickerPrice params) = publicGet pf ''/api/v3/ticker/price'' params"
| "invoke pf c (getBookTicker params) = publicGet pf ''/api/v3/ticker/bookTicker'' params"
| "invoke pf c (newOrder params) = signedRequest pf c ''POST'' ''/api/v3/order'' (Some params)"
| "invoke pf c (testOrder params) = signedRequest pf c ''POST'' ''/api/v3/order/test'' (Some params)"
| "invoke pf c (queryOrder params) = signedRequest pf c ''GET'' ''/api/v3/order'' (Some params)"
| "invoke pf c (cancelOrder params) = signedRequest pf c ''DELETE'' ''/api/v3/order'' (Some params)"
| "invoke pf c (cancelAllOrders params) =
     signedRequest pf c ''DELETE'' ''/api/v3/openOrders'' (Some params)"
| "invoke pf c (getOpenOrders params) = signedRequest pf c ''GET'' ''/api/v3/openOrders'' params"
| "invoke pf c (getAllOrders params) = signedRequest pf c ''GET'' ''/api/v3/allOrders'' (Some params)"
| "invoke pf c (getAccountInfo params) = signedRequest pf c ''GET'' ''/api/v3/account'' params"
| "invoke pf c (getMyTrades params) = signedRequest pf c ''GET'' ''/api/v3/myTrades'' (Some params)"
| "invoke pf c createListenKey = userStreamRequest pf c ''POST'' ''/api/v3/userDataStream'' None"
| "invoke pf c (keepaliveListenKey listenKey) =
     userStreamRequest pf c ''PUT'' ''/api/v3/userDataStream'' (Some [(''listenKey'', listenKey)])"
| "invoke pf c (closeListenKey listenKey) =
     userStreamRequest pf c ''DELETE'' ''/api/v3/userDataStream'' (Some [(''listenKey'', listenKey)])"

section \<open>Tool dispatch\<close>

subsection \<open>\<^verbatim>\<open>handleToolCall\<close>\<close>

text \<open>\<^verbatim>\<open>const { _fields, ...params } = args;\<close>\<close>

definition rest_params :: "jsobject \<Rightarrow> jsobject" where
  "rest_params args = filter (\<lambda>(k, v). k \<noteq> ''_fields'') args"

text \<open>\<^verbatim>\<open>Object.keys(params).length ? params : undefined\<close>\<close>

definition params_or_undefined :: "jsobject \<Rightarrow> jsobject option" where
  "params_or_undefined params = (if length (map fst params) \<noteq> 0 then Some params else None)"

text \<open>
  The \<^verbatim>\<open>switch\<close> of \<^verbatim>\<open>handleToolCall\<close>: which method of the client is called, and with
  which argument.
\<close>

definition dispatch :: "string \<Rightarrow> jsobject \<Rightarrow> js_error + facade_call" where
  "dispatch toolName args =
     (let params = rest_params args in
      if toolName = ''bn_ping'' then Inr ping
      else if toolName = ''bn_server_time'' then Inr getServerTimePublic
      else if toolName = ''bn_exchange_info'' then Inr (getExchangeInfo (params_or_undefined params))
      else if toolName = ''bn_order_book'' then Inr (getOrderBook params)
      else if toolName = ''bn_recent_trades'' then Inr (getRecentTrades params)
      else if toolName = ''bn_aggregate_trades'' then Inr (getAggregateTrades params)
      else if toolName = ''bn_klines'' then Inr (getKlines params)
      else if toolName = ''bn_avg_price'' then Inr (getAvgPrice params)
      else if toolName = ''bn_ticker_24hr'' then Inr (getTicker24hr (params_or_undefined params))
      else if toolName = ''bn_ticker_price'' then Inr (getTickerPrice (params_or_undefined params))
      else if toolName = ''bn_book_ticker'' then Inr (getBookTicker (params_or_undefined params))
      else if toolName = ''bn_new_order'' then Inr (newOrder params)
      else if toolName = ''bn_test_order'' then Inr (testOrder params)
      else if toolName = ''bn_query_order'' then Inr (queryOrder params)
      else if toolName = ''bn_cancel_order'' then Inr (cancelOrder params)
      else if toolName = ''bn_cancel_all_orders'' then Inr (cancelAllOrders params)
      else if toolName = ''bn_open_orders'' then Inr (getOpenOrders (params_or_undefined params))
      else if toolName = ''bn_all_orders'' then Inr (getAllOrders params)
      else if toolName = ''bn_account_info'' then Inr (getAccountInfo (params_or_undefined params))
      else if toolName = ''bn_my_trades'' then Inr (getMyTrades params)
      else if toolName = ''bn_create_listen_key'' then Inr createListenKey
      else if toolName = ''bn_keepalive_listen_key''
        then Inr (keepaliveListenKey (get_prop params ''listenKey''))
      else if toolName = ''bn_close_listen_key''
        then Inr (closeListenKey (get_prop params ''listenKey''))
      else Inl (Error (''Unknown tool: '' @ toolName)))"

definition handleToolCall :: "platform \<Rightarrow> string \<Rightarrow> jsobject \<Rightarrow> BinanceConfig \<Rightarrow> jsval io" where
  "handleToolCall pf toolName args client sent =
     (case dispatch toolName args of
        Inl e \<Rightarrow> (Inl e, sent)
      | Inr call \<Rightarrow> invoke pf client call sent)"

text \<open>
  The parameter object a call hands to the transport: \<open>None\<close> is \<^verbatim>\<open>undefined\<close> (also for
  the methods that take no argument); the two listen-key methods build theirs from the
  one string they are given.
\<close>

fun forwarded_params :: "facade_call \<Rightarrow> jsobject option" where
  "forwarded_params ping = None"
| "forwarded_params getServerTimePublic = None"
| "forwarded_params (getExchangeInfo params) = params"
| "forwarded_params (getOrderBook params) = Some params"
| "forwarded_params (getRecentTrades params) = Some params"
| "forwarded_params (getAggregateTrades params) = Some params"
| "forwarded_params (getKlines params) = Some params"
| "forwarded_params (getAvgPrice params) = Some params"
| "forwarded_params (getTicker24hr params) = params"
| "forwarded_params (getTickerPrice params) = params"
| "forwarded_params (getBookTicker params) = params"
| "forwarded_params (newOrder params) = Some params"
| "forwarded_params (testOrder params) = Some params"
| "forwarded_params (queryOrder params) = Some params"
| "forwarded_params (cancelOrder params) = Some params"
| "forwarded_params (cancelAllOrders params) = Some params"
| "forwarded_params (getOpenOrders params) = params"
| "forwarded_params (getAllOrders params) = Some params"
| "forwarded_params (getAccountInfo params) = params"
| "forwarded_params (getMyTrades params) = Some params"
| "forwarded_params createListenKey = None"
| "forwarded_params (keepaliveListenKey listenKey) = Some [(''listenKey'', listenKey)]"
| "forwarded_params (closeListenKey listenKey) = Some [(''listenKey'', listenKey)]"

text \<open>The tools whose method takes the whole parameter object.\<close>

definition required_params_tools :: "string list" where
  "required_params_tools =
     [''bn_order_book'', ''bn_recent_trades'', ''bn_aggregate_trades'', ''bn_klines'',
      ''bn_avg_price'', ''bn_new_order'', ''bn_test_order'', ''bn_query_order'',
      ''bn_cancel_order'', ''bn_cancel_all_orders'', ''bn_all_orders'', ''bn_my_trades'']"

definition optional_params_tools :: "string list" where
  "optional_params_tools =
     [''bn_exchange_info'', ''bn_ticker_24hr'', ''bn_ticker_price'', ''bn_book_ticker'',
      ''bn_open_orders'', ''bn_account_info'']"

subsection \<open>The tool handler registered by \<^verbatim>\<open>createServer\<close>\<close>

definition publicTools :: "string list" where
  "publicTools =
     [''bn_ping'', ''bn_server_time'', ''bn_exchange_info'',
      ''bn_order_book'', ''bn_recent_trades'', ''bn_aggregate_trades'',
      ''bn_klines'', ''bn_avg_price'', ''bn_ticker_24hr'', ''bn_ticker_price'',
      ''bn_book_ticker'']"

record tool_result =
  content_text :: string
  isError :: bool

definition credentials_required :: string where
  "credentials_required =
     ''Error: BINANCE_API_KEY and BINANCE_SECRET_KEY are required for this operation. ''
       @ ''Set them as environment variables or pass via config.''"

text \<open>\<^verbatim>\<open>error instanceof Error ? error.message : String(error)\<close>\<close>

fun message :: "platform \<Rightarrow> js_error \<Rightarrow> string" where
  "message pf (Error m) = m"
| "message pf e = platform_message pf e"

text \<open>
  The handler of one tool. \<open>config\<close> is the optional configuration of \<^verbatim>\<open>createServer\<close>;
  the cached \<^verbatim>\<open>client\<close> is represented by the configuration it was built with, and the
  new cache is returned with the result. A credential read from the arguments is cast to
  a string by the source; the model stores its string form, which is what the header
  and the key encoder make of it.
\<close>

definition config_apiKey :: "BinanceConfig option \<Rightarrow> jsval" where
  "config_apiKey config = (case config of None \<Rightarrow> JUndefined | Some c \<Rightarrow> JStr (apiKey c))"

definition config_secretKey :: "BinanceConfig option \<Rightarrow> jsval" where
  "config_secretKey config = (case config of None \<Rightarrow> JUndefined | Some c \<Rightarrow> JStr (secretKey c))"

definition tool_handler ::
  "platform \<Rightarrow> BinanceConfig option \<Rightarrow> string \<Rightarrow> jsobject \<Rightarrow> BinanceConfig option \<Rightarrow>
     request list \<Rightarrow> tool_result \<times> BinanceConfig option \<times> request list" where
  "tool_handler pf config name args client sent =
     (let apiKey' = js_or (config_apiKey config) (get_prop args ''BINANCE_API_KEY'');
          secretKey' = js_or (config_secretKey config) (get_prop args ''BINANCE_SECRET_KEY'')
      in
        if name \<notin> set publicTools \<and> (\<not> truthy apiKey' \<or> \<not> truthy secretKey')
        then (\<lparr>content_text = credentials_required, isError = True\<rparr>, client, sent)
        else
          (let fresh = \<lparr>apiKey = String (js_or apiKey' (JStr [])),
                        secretKey = String (js_or secretKey' (JStr []))\<rparr>;
               client' = (case client of
                            None \<Rightarrow> fresh
                          | Some c \<Rightarrow> if config_apiKey config \<noteq> apiKey' then fresh else c)
           in case handleToolCall pf name args client' sent of
                (Inr result, sent') \<Rightarrow>
                  (\<lparr>content_text = JSON_stringify pf result, isError = False\<rparr>, Some client', sent')
              | (Inl error, sent') \<Rightarrow>
                  (\<lparr>content_text = ''Error: '' @ message pf error, isError = True\<rparr>,
                   Some client', sent')))"

section \<open>Notions used to state the properties\<close>

text \<open>The names of the fields of a query string, read by the standard parser.\<close>

definition field_names :: "string \<Rightarrow> string list" where
  "field_names q = map fst (parse_urlencoded q)"

text \<open>The caller's parameters of a request; \<^verbatim>\<open>undefined\<close> carries none.\<close>

definition caller_params :: "jsobject option \<Rightarrow> jsobject" where
  "caller_params params = (case params of None \<Rightarrow> [] | Some ps \<Rightarrow> ps)"

text \<open>The request for the server time: no header and no body.\<close>

definition time_request :: request where
  "time_request =
     \<lparr>req_url = ''https://api.binance.com/api/v3/time'', req_method = ''GET'',
      req_headers = [], req_body = None\<rparr>"

text \<open>A byte string in hexadecimal: two lower-case digits for every byte.\<close>

definition hex_digest :: "byte list \<Rightarrow> string" where
  "hex_digest bs = concat (map (\<lambda>b. [hex_lower (unat b div 16), hex_lower (unat b mod 16)]) bs)"

text \<open>The signing primitive as the specification words it: HMAC-SHA256, in hexadecimal.\<close>

definition sign_spec :: "string \<Rightarrow> string \<Rightarrow> string" where
  "sign_spec secret msg = hex_digest (hmac_sha256 (TextEncoder_encode secret) (TextEncoder_encode msg))"

subsection \<open>Simulated remotes\<close>

definition quoted :: "string \<Rightarrow> string" where
  "quoted s = CHR 0x22 # s @ [CHR 0x22]"

definition time_body :: string where
  "time_body = ''{'' @ quoted ''serverTime'' @ '':1700000000000}''"

definition invalid_symbol_body :: string where
  "invalid_symbol_body =
     ''{'' @ quoted ''code'' @ '':-1121,'' @ quoted ''msg'' @ '':'' @ quoted ''Invalid symbol.'' @ ''}''"

definition code_only_body :: string where
  "code_only_body = ''{'' @ quoted ''code'' @ '':-1121}''"

text \<open>\<^verbatim>\<open>JSON.parse\<close> on the bodies the simulated remotes send; it throws on anything else.\<close>

definition sim_parse :: "string \<Rightarrow> jsval option" where
  "sim_parse s =
     (if s = time_body then Some (JObj [(''serverTime'', JNum 1700000000000)])
      else if s = invalid_symbol_body
        then Some (JObj [(''code'', JNum (- 1121)), (''msg'', JStr ''Invalid symbol.'')])
      else if s = code_only_body then Some (JObj [(''code'', JNum (- 1121))])
      else if s = ''null'' then Some JNull
      else None)"

definition time_response :: response where
  "time_response = \<lparr>status = 200, statusText = ''OK'', body_text = time_body\<rparr>"

text \<open>A remote that answers every request with the same response.\<close>

definition answer_all :: "response \<Rightarrow> request list \<Rightarrow> request \<Rightarrow> response option" where
  "answer_all r sent req = Some r"

text \<open>A remote that answers the server-time request with the time and every other with \<open>r\<close>.\<close>

definition time_then :: "response \<Rightarrow> request list \<Rightarrow> request \<Rightarrow> response option" where
  "time_then r sent req = (if req = time_request then Some time_response else Some r)"

definition sim_platform :: "(request list \<Rightarrow> request \<Rightarrow> response option) \<Rightarrow> platform" where
  "sim_platform srv =
     \<lparr>JSON_parse = sim_parse, JSON_stringify = String,
      platform_message = (\<lambda>e. ''platform error''), remote = srv\<rparr>"

definition sim_config :: BinanceConfig where
  "sim_config = \<lparr>apiKey = ''vmPUZE6mv9SD5VNHk4HlWFsOr6aKE2zv'', secretKey = ''NhqPtmdSJYdKjVHjA7PZ''\<rparr>"

text \<open>A pair of credentials without the secret key.\<close>

definition no_secret_config :: BinanceConfig where
  "no_secret_config = \<lparr>apiKey = ''vmPUZE6mv9SD5VNHk4HlWFsOr6aKE2zv'', secretKey = []\<rparr>"

definition empty_ok_response :: response where
  "empty_ok_response = \<lparr>status = 200, statusText = ''OK'', body_text = []\<rparr>"

definition html_ok_response :: response where
  "html_ok_response = \<lparr>status = 200, statusText = ''OK'', body_text = ''<html></html>''\<rparr>"

definition bad_request :: "string \<Rightarrow> response" where
  "bad_request b = \<lparr>status = 400, statusText = ''Bad Request'', body_text = b\<rparr>"

text \<open>The requests of the two modes that put their parameters into the URL.\<close>

definition public_request :: "string \<Rightarrow> jsobject option \<Rightarrow> request" where
  "public_request endpoint params =
     \<lparr>req_url = query_url endpoint params, req_method = ''GET'',
      req_headers = [], req_body = None\<rparr>"

definition user_stream_request ::
  "BinanceConfig \<Rightarrow> string \<Rightarrow> string \<Rightarrow> jsobject option \<Rightarrow> request" where
  "user_stream_request config method endpoint params =
     \<lparr>req_url = query_url endpoint params, req_method = method,
      req_headers = [(''X-MBX-APIKEY'', apiKey config)], req_body = None\<rparr>"

text \<open>The signed request of a call, given the server time.\<close>

definition signed_request_at ::
  "BinanceConfig \<Rightarrow> string \<Rightarrow> string \<Rightarrow> jsobject option \<Rightarrow> jsval \<Rightarrow> request" where
  "signed_request_at config method endpoint params T =
     (let Q = buildQueryString (allParams params T)
      in signed_wire_request config method endpoint
           (Q @ ''&signature='' @ sign_spec (secretKey config) Q))"

text \<open>The first line of every error the transport raises for a response that is not ok.\<close>

definition api_error_prefix :: "response \<Rightarrow> string" where
  "api_error_prefix r = ''Binance API Error '' @ show_nat (status r) @ '': ''"

section \<open>Properties of the canonicalizer\<close>

lemma join_with_merge: "join_with sep ((x @ sep @ y) # rest) = join_with sep (x # y # rest)"
  by (cases rest) simp_all

lemma serialize_tuples_join:
  "serialize_tuples out ts = join_with ''&'' ((if out = [] then [] else [out]) @ map enc_pair ts)"
proof (induction ts arbitrary: out)
  case Nil
  then show ?case by simp
next
  case (Cons t ts)
  obtain n v where t: "t = (n, v)" by (cases t)
  show ?case
  proof (cases "out = []")
    case True
    then show ?thesis using Cons[of "form_encode n @ ''='' @ form_encode v"] t
      by simp
  next
    case False
    then show ?thesis using Cons[of "out @ ''&'' @ form_encode n @ ''='' @ form_encode v"] t
      join_with_merge[of "''&''" out "form_encode n @ ''='' @ form_encode v" "map enc_pair ts"]
      by simp
  qed
qed

lemma filter_present:
  "map (\<lambda>(k, v). (k, String v)) (filter (\<lambda>(k, v). v \<noteq> JUndefined \<and> v \<noteq> JNull) P)
     = present_entries P"
  unfolding present_entries_def absent_def by (induction P) auto

lemma buildQueryString_spec: "buildQueryString P = canonical_spec (Object_entries P)"
  by (simp add: buildQueryString_def canonical_spec_def URLSearchParams_toString_def
      serialize_tuples_join filter_present)

lemma nat_lt_16_cases:
  "(d::nat) < 16 \<Longrightarrow> d \<in> {0,1,2,3,4,5,6,7,8,9,10,11,12,13,14,15}"
  by simp arith

lemma hex_val_hex_upper: "d < 16 \<Longrightarrow> hex_val (hex_upper d) = Some d"
  by (drule nat_lt_16_cases) (auto simp: hex_upper_def hex_val_def)

lemma hex_upper_not_special:
  "d < 16 \<Longrightarrow> hex_upper d \<notin> {CHR ''&'', CHR ''='', CHR ''+'', CHR ''%''}"
  by (drule nat_lt_16_cases) (auto simp: hex_upper_def)

lemma form_safe_not_special:
  "form_safe c \<Longrightarrow> c \<notin> {CHR ''&'', CHR ''='', CHR ''+'', CHR ''%'', CHR '' ''}"
  by (auto simp: form_safe_def)

lemma of_char_div_16: "(of_char c :: nat) div 16 < 16"
proof -
  have "(of_char c :: nat) < 256" by simp
  then show ?thesis by arith
qed

lemma form_encode_byte_no_sep:
  "x \<in> set (form_encode_byte c) \<Longrightarrow> x \<noteq> CHR ''&'' \<and> x \<noteq> CHR ''=''"
  using hex_upper_not_special[OF of_char_div_16, of c]
        hex_upper_not_special[of "of_char c mod 16"] form_safe_not_special[of c]
  by (auto simp: form_encode_byte_def split: if_splits)

lemma form_encode_no_sep:
  "x \<in> set (form_encode s) \<Longrightarrow> x \<noteq> CHR ''&'' \<and> x \<noteq> CHR ''=''"
  using form_encode_byte_no_sep by (auto simp: form_encode_def)

lemma percent_decode_plain:
  "c \<noteq> CHR ''%'' \<Longrightarrow> percent_decode (c # r) = c # percent_decode r"
  by (induction r rule: percent_decode.induct) simp_all

lemma form_encode_Cons: "form_encode (c # s) = form_encode_byte c @ form_encode s"
  by (simp add: form_encode_def)

lemma char_of_hex_pair: "char_of (16 * ((of_char c :: nat) div 16) + of_char c mod 16) = c"
  by simp

lemma decode_encode: "percent_decode (plus_to_space (form_encode s)) = s"
proof (induction s)
  case Nil
  then show ?case by (simp add: form_encode_def plus_to_space_def)
next
  case (Cons c s)
  let ?r = "plus_to_space (form_encode s)"
  consider (space) "c = CHR '' ''" | (safe) "c \<noteq> CHR '' ''" "form_safe c"
    | (other) "c \<noteq> CHR '' ''" "\<not> form_safe c" by blast
  then show ?case
  proof cases
    case space
    then have "plus_to_space (form_encode (c # s)) = CHR '' '' # ?r"
      by (simp add: form_encode_Cons form_encode_byte_def plus_to_space_def)
    then show ?thesis using Cons space by (simp add: percent_decode_plain)
  next
    case safe
    then have "plus_to_space (form_encode (c # s)) = c # ?r"
      using form_safe_not_special[of c]
      by (simp add: form_encode_Cons form_encode_byte_def plus_to_space_def)
    then show ?thesis using Cons safe form_safe_not_special[of c]
      by (simp add: percent_decode_plain)
  next
    case other
    let ?h = "hex_upper (of_char c div 16)" and ?l = "hex_upper (of_char c mod 16)"
    have h: "hex_val ?h = Some (of_char c div 16)"
      by (rule hex_val_hex_upper[OF of_char_div_16])
    have l: "hex_val ?l = Some (of_char c mod 16)"
      by (rule hex_val_hex_upper) simp
    have "?h \<noteq> CHR ''+''" "?l \<noteq> CHR ''+''"
      using hex_upper_not_special[OF of_char_div_16, of c]
            hex_upper_not_special[of "of_char c mod 16"] by auto
    then have "plus_to_space (form_encode (c # s)) = CHR ''%'' # ?h # ?l # ?r"
      using other by (simp add: form_encode_Cons form_encode_byte_def plus_to_space_def)
    then show ?thesis using Cons h l by (simp add: char_of_hex_pair)
  qed
qed

lemma split_on_no_sep: "c \<notin> set x \<Longrightarrow> split_on c x = [x]"
  by (induction x) auto

lemma split_on_append:
  "c \<notin> set x \<Longrightarrow> split_on c (x @ c # r) = x # split_on c r"
  by (induction x) auto

lemma split_on_join:
  "xs \<noteq> [] \<Longrightarrow> (\<And>x. x \<in> set xs \<Longrightarrow> c \<notin> set x) \<Longrightarrow> split_on c (join_with [c] xs) = xs"
proof (induction "[c]" xs rule: join_with.induct)
  case 1
  then show ?case by simp
next
  case (2 x)
  then show ?case by (simp add: split_on_no_sep)
next
  case (3 x y ys)
  then show ?case by (simp add: split_on_append)
qed

lemma enc_pair_no_amp: "CHR ''&'' \<notin> set (enc_pair p)"
  using form_encode_no_sep by (cases p) auto

lemma enc_pair_nonempty: "enc_pair p \<noteq> []"
  by (cases p) simp

lemma parse_piece_enc_pair: "parse_piece (enc_pair p) = p"
proof (cases p)
  case (Pair k s)
  have k: "CHR ''='' \<notin> set (form_encode k)" using form_encode_no_sep by blast
  then have "takeWhile (\<lambda>c. c \<noteq> CHR ''='') (form_encode k @ CHR ''='' # form_encode s) = form_encode k"
    by (subst takeWhile_append2) auto
  moreover have "dropWhile (\<lambda>c. c \<noteq> CHR ''='') (form_encode k @ CHR ''='' # form_encode s)
                   = CHR ''='' # form_encode s"
    using k by (subst dropWhile_append2) auto
  ultimately show ?thesis using Pair
    by (simp add: parse_piece_def decode_encode)
qed

lemma parse_canonical: "parse_urlencoded (canonical_spec P) = present_entries P"
proof (cases "present_entries P = []")
  case True
  then show ?thesis by (simp add: parse_urlencoded_def canonical_spec_def)
next
  case False
  have "split_on CHR ''&'' (join_with ''&'' (map enc_pair (present_entries P)))
          = map enc_pair (present_entries P)"
    using False enc_pair_no_amp by (intro split_on_join) auto
  moreover have "filter (\<lambda>b. b \<noteq> []) (map enc_pair xs) = map enc_pair xs" for xs
    by (induction xs) (simp_all add: enc_pair_nonempty)
  moreover have "map parse_piece (map enc_pair xs) = xs" for xs
    using parse_piece_enc_pair by (induction xs) (auto simp del: enc_pair.simps)
  ultimately show ?thesis by (simp add: parse_urlencoded_def canonical_spec_def)
qed

lemma parse_buildQueryString:
  "parse_urlencoded (buildQueryString P) = present_entries (Object_entries P)"
  by (simp add: buildQueryString_spec parse_canonical)

subsection \<open>The order of enumeration\<close>

lemma array_index_no_digit: "\<not> is_digit c \<Longrightarrow> array_index (c # cs) = None"
  by (simp add: array_index_def)

lemma Object_entries_no_index:
  assumes "list_all (\<lambda>e. \<not> is_index_entry e) P"
  shows "Object_entries P = P"
proof -
  have "filter is_index_entry P = []" "filter (\<lambda>e. \<not> is_index_entry e) P = P"
    using assms by (induction P) auto
  then show ?thesis by (simp add: Object_entries_def)
qed

lemma set_Object_entries: "set (Object_entries P) = set P"
  by (auto simp: Object_entries_def)

lemma index_part_Object_entries:
  "filter is_index_entry (Object_entries P) = sort_key index_of_entry (filter is_index_entry P)"
  by (simp add: Object_entries_def filter_sort)

lemma other_part_Object_entries:
  "filter (\<lambda>e. \<not> is_index_entry e) (Object_entries P) = filter (\<lambda>e. \<not> is_index_entry e) P"
  by (simp add: Object_entries_def filter_sort)

text \<open>
  Copying an object in its order of enumeration does not change what is enumerated:
  the list of the source stands for the copy in \<open>allParams\<close> and \<open>rest_params\<close>.
\<close>

lemma Object_entries_idem: "Object_entries (Object_entries P) = Object_entries P"
proof -
  have "Object_entries (Object_entries P)
          = sort_key index_of_entry (filter is_index_entry (Object_entries P))
              @ filter (\<lambda>e. \<not> is_index_entry e) (Object_entries P)"
    by (rule Object_entries_def)
  also have "\<dots> = sort_key index_of_entry (filter is_index_entry P)
                    @ filter (\<lambda>e. \<not> is_index_entry e) P"
    by (simp add: index_part_Object_entries other_part_Object_entries sort_key_id_if_sorted)
  finally show ?thesis by (simp add: Object_entries_def)
qed

lemma filter_set_prop_other:
  "(\<And>w. \<not> Q (k, w)) \<Longrightarrow> filter Q (set_prop k v P) = filter Q P"
  by (induction P) auto

lemma filter_set_prop_same:
  "(\<And>w. Q (k, w)) \<Longrightarrow> filter Q (set_prop k v P) = set_prop k v (filter Q P)"
  by (induction P) auto

lemma Object_entries_set_prop:
  assumes "array_index k = None"
  shows "Object_entries (set_prop k v P)
           = sort_key index_of_entry (filter is_index_entry P)
               @ set_prop k v (filter (\<lambda>e. \<not> is_index_entry e) P)"
proof -
  have "filter is_index_entry (set_prop k v P) = filter is_index_entry P"
    using assms by (intro filter_set_prop_other) (simp add: is_index_entry_def)
  moreover have "filter (\<lambda>e. \<not> is_index_entry e) (set_prop k v P)
                   = set_prop k v (filter (\<lambda>e. \<not> is_index_entry e) P)"
    using assms by (intro filter_set_prop_same) (simp add: is_index_entry_def)
  ultimately show ?thesis by (simp add: Object_entries_def)
qed

lemma Object_entries_set_prop_copy:
  assumes "array_index k = None"
  shows "Object_entries (set_prop k v (Object_entries P)) = Object_entries (set_prop k v P)"
  using Object_entries_set_prop[OF assms, of v P]
    Object_entries_set_prop[OF assms, of v "Object_entries P"]
  by (simp add: index_part_Object_entries other_part_Object_entries sort_key_id_if_sorted)

lemma filter_rest_params: "filter Q (rest_params P) = rest_params (filter Q P)"
  by (induction P) (auto simp: rest_params_def)

lemma rest_params_sort_key: "rest_params (sort_key f P) = sort_key f (rest_params P)"
  by (simp add: rest_params_def filter_sort)

lemma rest_params_append: "rest_params (P @ Q) = rest_params P @ rest_params Q"
  by (simp add: rest_params_def)

lemma Object_entries_rest_params_commute:
  "Object_entries (rest_params P) = rest_params (Object_entries P)"
  by (simp add: Object_entries_def filter_rest_params rest_params_sort_key rest_params_append)

lemma Object_entries_rest_params:
  "Object_entries (rest_params (Object_entries args)) = Object_entries (rest_params args)"
  by (simp add: Object_entries_rest_params_commute Object_entries_idem)

subsection \<open>Present entries under enumeration\<close>


lemma set_present_entries:
  "set (present_entries P) = {(k, String v) | k v. (k, v) \<in> set P \<and> \<not> absent v}"
  by (auto simp: present_entries_def)

lemma present_keys_Object_entries:
  "fst ` set (present_entries (Object_entries P)) = fst ` set (present_entries P)"
  by (simp add: set_present_entries set_Object_entries)



subsection \<open>Examples\<close>

lemmas query_eval =
  buildQueryString_def URLSearchParams_toString_def Object_entries_def is_index_entry_def
  array_index_no_digit is_digit_def show_int_def form_encode_def form_encode_byte_def
  form_safe_def










section \<open>Properties of the signing primitive\<close>

lemma length_be32: "length (be32 w) = 4"
  by (simp add: be32_def)

lemma length_digest: "length (digest s) = 32"
  by (simp add: digest_def length_be32 split: prod.splits)

lemma length_sha256: "length (sha256 m) = 32"
  by (simp add: sha256_def Let_def length_digest)

lemma length_hmac_sha256: "length (hmac_sha256 k m) = 32"
  by (simp add: hmac_sha256_def Let_def length_sha256)

lemma unat_byte_div_16: "unat (b :: byte) div 16 < 16"
proof -
  have "unat b < 256" using unsigned_less[of b] by simp
  then show ?thesis by arith
qed

lemma padStart_toString16:
  "padStart0 2 (toString16 b) = [hex_lower (unat b div 16), hex_lower (unat b mod 16)]"
proof (cases "unat b < 16")
  case True
  then have "hex_lower (unat b div 16) = CHR ''0''" by (simp add: hex_lower_def)
  then show ?thesis using True by (simp add: padStart0_def toString16_def)
next
  case False
  then show ?thesis by (simp add: padStart0_def toString16_def)
qed

lemma hex_lower_is_lower_hex: "d < 16 \<Longrightarrow> is_lower_hex (hex_lower d)"
  by (drule nat_lt_16_cases) (auto simp: hex_lower_def is_lower_hex_def)

lemma length_hex_digest: "length (hex_digest bs) = 2 * length bs"
  by (induction bs) (simp_all add: hex_digest_def)

lemma hex_digest_lower: "list_all is_lower_hex (hex_digest bs)"
  by (induction bs) (simp_all add: hex_digest_def hex_lower_is_lower_hex unat_byte_div_16)

text \<open>The digest of the three bytes \<^verbatim>\<open>abc\<close>, as FIPS 180-4 gives it.\<close>

lemma sha256_abc:
  "hex_digest (sha256 (TextEncoder_encode ''abc''))
     = ''ba7816bf8f01cfea414140de5dae2223b00361a396177a9cb410ff61f20015ad''"
  by code_simp

lemma TextEncoder_encode_Nil: "TextEncoder_encode s = [] \<longleftrightarrow> s = []"
  by (simp add: TextEncoder_encode_def)

lemma hmacSha256Hex_sign_spec:
  "secret \<noteq> [] \<Longrightarrow> hmacSha256Hex secret msg = Inr (sign_spec secret msg)"
  by (simp add: hmacSha256Hex_def TextEncoder_encode_Nil sign_spec_def hex_digest_def
      padStart_toString16)

lemma length_sign_spec: "length (sign_spec secret msg) = 64"
  by (simp add: sign_spec_def length_hex_digest length_hmac_sha256)

lemma sign_spec_lower: "list_all is_lower_hex (sign_spec secret msg)"
  by (simp add: sign_spec_def hex_digest_lower)

text \<open>
  Claim C2, amended. For every non-empty secret and every message, \<open>hmacSha256Hex\<close>
  returns the HMAC-SHA256 of the message keyed by the secret, written as exactly 64
  lower-case hexadecimal characters; it is a function of the two strings alone.
\<close>

theorem hmacSha256Hex_hex64:
  assumes "secret \<noteq> []"
  shows "hmacSha256Hex secret msg = Inr (sign_spec secret msg)
         \<and> length (sign_spec secret msg) = 64
         \<and> list_all is_lower_hex (sign_spec secret msg)"
  using assms hmacSha256Hex_sign_spec length_sign_spec sign_spec_lower by blast

theorem hmacSha256Hex_hex64_witness:
  "hmacSha256Hex ''NhqPtmdSJYdKjVHjA7PZ'' ''symbol=LTCBTC&timestamp=1499827319559''
     = Inr (sign_spec ''NhqPtmdSJYdKjVHjA7PZ'' ''symbol=LTCBTC&timestamp=1499827319559'')
   \<and> length (sign_spec ''NhqPtmdSJYdKjVHjA7PZ'' ''symbol=LTCBTC&timestamp=1499827319559'') = 64
   \<and> list_all is_lower_hex (sign_spec ''NhqPtmdSJYdKjVHjA7PZ'' ''symbol=LTCBTC&timestamp=1499827319559'')"
  using hmacSha256Hex_hex64[of "''NhqPtmdSJYdKjVHjA7PZ''" "''symbol=LTCBTC&timestamp=1499827319559''"]
  by simp

text \<open>
  With the empty secret the platform refuses the key, and no digest is returned.
\<close>

theorem hmacSha256Hex_empty_secret:
  "hmacSha256Hex [] ''symbol=LTCBTC&timestamp=1499827319559'' = Inl DataError"
  by (simp add: hmacSha256Hex_def TextEncoder_encode_def)

section \<open>Properties of objects\<close>

lemma get_prop_set_prop_same: "get_prop (set_prop k v P) k = v"
  by (induction P) (auto simp: get_prop_def)

lemma get_prop_set_prop_other: "k' \<noteq> k \<Longrightarrow> get_prop (set_prop k v P) k' = get_prop P k'"
  by (induction P) (auto simp: get_prop_def)


lemma present_entries_Nil: "present_entries [] = []"
  by (simp add: present_entries_def)

lemma present_entries_Cons:
  "present_entries ((k, v) # P) = (if absent v then [] else [(k, String v)]) @ present_entries P"
  by (simp add: present_entries_def)

lemma present_entries_set_prop_others:
  "filter (\<lambda>e. fst e \<noteq> k) (present_entries (set_prop k v P))
     = filter (\<lambda>e. fst e \<noteq> k) (present_entries P)"
  by (induction P) (auto simp: present_entries_Cons present_entries_Nil)

lemma present_keys_set_prop:
  assumes "k' \<noteq> k"
  shows "k' \<in> fst ` set (present_entries (set_prop k v P)) \<longleftrightarrow> k' \<in> fst ` set (present_entries P)"
proof -
  have "k' \<in> fst ` set xs \<longleftrightarrow> k' \<in> fst ` set (filter (\<lambda>e. fst e \<noteq> k) xs)"
    for xs :: "(string \<times> string) list"
    using assms by force
  then show ?thesis
    using present_entries_set_prop_others[of k v P] by metis
qed



section \<open>Runs of the three request modes\<close>

lemma getServerTime_sent: "snd (getServerTime pf sent) = sent @ [time_request]"
  by (simp add: getServerTime_def publicGet_def fetch_def query_url_def baseUrl_def
      time_request_def split: option.splits sum.splits prod.splits)

lemma getServerTime_sent': "getServerTime pf sent = (r, sent1) \<Longrightarrow> sent1 = sent @ [time_request]"
  using getServerTime_sent[of pf sent] by simp

lemma publicGet_run:
  "publicGet pf endpoint params sent =
     (let req = \<lparr>req_url = query_url endpoint params, req_method = ''GET'',
                 req_headers = [], req_body = None\<rparr>
      in ((case remote pf sent req of
             None \<Rightarrow> Inl NetworkError
           | Some r \<Rightarrow>
               if \<not> ok r then Inl (api_error pf ''message'' r)
               else (case JSON_parse pf (body_text r) of None \<Rightarrow> Inl SyntaxError | Some v \<Rightarrow> Inr v)),
          sent @ [req]))"
  by (simp add: publicGet_def fetch_def Let_def split: option.splits)

lemma userStreamRequest_run:
  "userStreamRequest pf config method endpoint params sent =
     (let req = \<lparr>req_url = query_url endpoint params, req_method = method,
                 req_headers = [(''X-MBX-APIKEY'', apiKey config)], req_body = None\<rparr>
      in ((case remote pf sent req of
             None \<Rightarrow> Inl NetworkError
           | Some r \<Rightarrow> if \<not> ok r then Inl (api_error pf ''code'' r) else read_success pf r),
          sent @ [req]))"
  by (simp add: userStreamRequest_def fetch_def Let_def split: option.splits)

lemma signedRequest_run:
  assumes "getServerTime pf sent = (Inr T, sent1)" and "secretKey config \<noteq> []"
  shows "signedRequest pf config method endpoint params sent =
     (let Q = buildQueryString (allParams params T);
          req = signed_wire_request config method endpoint
                  (Q @ ''&signature='' @ sign_spec (secretKey config) Q)
      in ((case remote pf sent1 req of
             None \<Rightarrow> Inl NetworkError
           | Some r \<Rightarrow> if \<not> ok r then Inl (api_error pf ''code'' r) else read_success pf r),
          sent1 @ [req]))"
  using assms
  by (simp add: signedRequest_def hmacSha256Hex_sign_spec fetch_def Let_def split: option.splits)


section \<open>The signature is the last component\<close>

lemma split_on_not_Nil: "split_on c s \<noteq> []"
  by (induction s) (auto split: list.splits)

lemma split_on_two: "c \<in> set s \<Longrightarrow> \<exists>a b bs. split_on c s = a # b # bs"
proof (induction s)
  case Nil
  then show ?case by simp
next
  case (Cons x s)
  show ?case
  proof (cases "x = c")
    case True
    then show ?thesis using split_on_not_Nil[of c s] by (cases "split_on c s") auto
  next
    case False
    then have "c \<in> set s" using Cons.prems by simp
    then obtain a b bs where "split_on c s = a # b # bs" using Cons.IH by blast
    then show ?thesis using False by simp
  qed
qed

lemma last_split_on_Cons: "c \<in> set s \<Longrightarrow> last (split_on c (x # s)) = last (split_on c s)"
proof -
  assume "c \<in> set s"
  then obtain a b bs where "split_on c s = a # b # bs" using split_on_two by blast
  then show ?thesis by simp
qed

lemma last_split_on: "c \<notin> set y \<Longrightarrow> last (split_on c (x @ c # y)) = y"
proof (induction x)
  case Nil
  then show ?case by (simp add: split_on_no_sep)
next
  case (Cons a x)
  have "c \<in> set (x @ c # y)" by simp
  then show ?case using Cons last_split_on_Cons[of c "x @ c # y" a] by simp
qed

lemma lower_hex_no_amp: "list_all is_lower_hex h \<Longrightarrow> CHR ''&'' \<notin> set h"
  by (induction h) (auto simp: is_lower_hex_def)

lemma signature_last:
  "last (split_on CHR ''&'' (Q @ ''&signature='' @ sign_spec k Q)) = ''signature='' @ sign_spec k Q"
proof -
  have "CHR ''&'' \<notin> set (''signature='' @ sign_spec k Q)"
    using lower_hex_no_amp[OF sign_spec_lower, of k Q] by simp
  then show ?thesis
    using last_split_on[of "CHR ''&''" "''signature='' @ sign_spec k Q" Q] by simp
qed

lemma field_names_buildQueryString:
  "field_names (buildQueryString P) = map fst (present_entries (Object_entries P))"
  by (simp add: field_names_def parse_buildQueryString)

lemma set_field_names_buildQueryString:
  "set (field_names (buildQueryString P)) = fst ` set (present_entries P)"
  using present_keys_Object_entries[of P] by (simp add: field_names_buildQueryString)

lemma signature_field_iff:
  "''signature'' \<in> set (field_names (buildQueryString (allParams params T)))
     \<longleftrightarrow> ''signature'' \<in> fst ` set (present_entries (caller_params params))"
proof -
  have "''signature'' \<in> fst ` set (present_entries (allParams params T))
          \<longleftrightarrow> ''signature'' \<in> fst ` set (present_entries (caller_params params))"
    unfolding allParams_def caller_params_def
    by (subst present_keys_set_prop, simp, subst present_keys_set_prop, simp)
       (simp split: option.splits)
  then show ?thesis by (simp add: set_field_names_buildQueryString)
qed

lemma list_all_set_prop:
  "list_all Q P \<Longrightarrow> Q (k, v) \<Longrightarrow> list_all Q (set_prop k v P)"
  by (induction P) auto

lemma allParams_no_index:
  assumes "list_all (\<lambda>e. \<not> is_index_entry e) (caller_params params)"
  shows "Object_entries (allParams params T) = allParams params T"
proof -
  have "\<not> is_index_entry (''timestamp'', v)" "\<not> is_index_entry (''recvWindow'', w)" for v w
    by (simp_all add: is_index_entry_def array_index_no_digit is_digit_def)
  then have "list_all (\<lambda>e. \<not> is_index_entry e) (allParams params T)"
    using assms unfolding allParams_def caller_params_def
    by (intro list_all_set_prop) simp_all
  then show ?thesis by (rule Object_entries_no_index)
qed

lemma sim_getServerTime:
  "getServerTime (sim_platform (time_then r)) [] = (Inr (JNum 1700000000000), [time_request])"
  by (simp add: getServerTime_def publicGet_run sim_platform_def time_then_def query_url_def
      baseUrl_def time_request_def time_response_def ok_def sim_parse_def get_prop_def)

lemma sim_secret: "secretKey sim_config \<noteq> []"
  by (simp add: sim_config_def)

text \<open>
  Claim C3, amended. When the server-time fetch yields \<open>T\<close> and the secret is not
  empty, a signed request sends, after the time request, exactly one request, which
  carries the canonical string \<open>Q\<close> of the caller's parameters merged with
  \<^verbatim>\<open>timestamp\<close> and \<^verbatim>\<open>recvWindow\<close>, taken in their order of enumeration (which is the
  order of insertion when no caller key is an array index), followed by \<^verbatim>\<open>&signature=\<close> and the HMAC-SHA256 of
  \<open>Q\<close> under the secret key: in the URL for GET and DELETE, as the body for POST. The
  signature is the last \<^verbatim>\<open>&\<close>-separated component. The signed string \<open>Q\<close> has a field
  named \<^verbatim>\<open>signature\<close> exactly when the caller's own parameters have a present entry of
  that name; so it has none when the caller passes none.
\<close>

theorem signed_query_signature:
  assumes "getServerTime pf sent = (Inr T, sent1)" and "secretKey config \<noteq> []"
  shows "let Q = buildQueryString (allParams params T);
             h = sign_spec (secretKey config) Q;
             req = signed_wire_request config method endpoint (Q @ ''&signature='' @ h)
         in Q = canonical_spec (Object_entries (allParams params T))
          \<and> (list_all (\<lambda>e. \<not> is_index_entry e) (caller_params params)
                \<longrightarrow> Q = canonical_spec (allParams params T))
          \<and> hmacSha256Hex (secretKey config) Q = Inr h
          \<and> snd (signedRequest pf config method endpoint params sent) = sent1 @ [req]
          \<and> (method = ''GET'' \<or> method = ''DELETE'' \<longrightarrow>
                req_url req = baseUrl @ endpoint @ ''?'' @ Q @ ''&signature='' @ h)
          \<and> (method = ''POST'' \<longrightarrow> req_body req = Some (Q @ ''&signature='' @ h))
          \<and> last (split_on CHR ''&'' (Q @ ''&signature='' @ h)) = ''signature='' @ h
          \<and> (''signature'' \<in> set (field_names Q)
                \<longleftrightarrow> ''signature'' \<in> fst ` set (present_entries (caller_params params)))"
proof -
  let ?Q = "buildQueryString (allParams params T)"
  let ?h = "sign_spec (secretKey config) ?Q"
  let ?req = "signed_wire_request config method endpoint (?Q @ ''&signature='' @ ?h)"
  have "hmacSha256Hex (secretKey config) ?Q = Inr ?h"
    using assms(2) by (rule hmacSha256Hex_sign_spec)
  moreover have "snd (signedRequest pf config method endpoint params sent) = sent1 @ [?req]"
    using signedRequest_run[OF assms, of "method" "endpoint" "params"] by (simp add: Let_def)
  moreover have "method = ''GET'' \<or> method = ''DELETE'' \<longrightarrow>
      req_url ?req = baseUrl @ endpoint @ ''?'' @ ?Q @ ''&signature='' @ ?h"
    by (auto simp: signed_wire_request_def)
  moreover have "method = ''POST'' \<longrightarrow> req_body ?req = Some (?Q @ ''&signature='' @ ?h)"
    by (simp add: signed_wire_request_def)
  moreover have "list_all (\<lambda>e. \<not> is_index_entry e) (caller_params params)
      \<longrightarrow> ?Q = canonical_spec (allParams params T)"
    using buildQueryString_spec[of "allParams params T"] allParams_no_index[of params T]
    by simp
  moreover note signature_last[of ?Q "secretKey config"] signature_field_iff[of params T]
    buildQueryString_spec[of "allParams params T"]
  ultimately show ?thesis unfolding Let_def by blast
qed

theorem signed_query_signature_witness:
  "snd (signedRequest (sim_platform (time_then time_response)) sim_config ''POST'' ''/api/v3/order''
          (Some [(''symbol'', JStr ''BTCUSDT'')]) [])
     = [time_request,
        signed_wire_request sim_config ''POST'' ''/api/v3/order''
          (buildQueryString (allParams (Some [(''symbol'', JStr ''BTCUSDT'')]) (JNum 1700000000000))
             @ ''&signature=''
             @ sign_spec (secretKey sim_config)
                 (buildQueryString
                    (allParams (Some [(''symbol'', JStr ''BTCUSDT'')]) (JNum 1700000000000))))]"
  using signed_query_signature[OF sim_getServerTime[of time_response] sim_secret,
      of "Some [(''symbol'', JStr ''BTCUSDT'')]" "''POST''" "''/api/v3/order''"]
  by (simp add: Let_def)


lemma show_nat_timestamp: "show_nat 1700000000000 = ''1700000000000''"
  by (simp add: show_nat.simps digit_char_def)

lemma show_nat_5000: "show_nat 5000 = ''5000''"
  by (simp add: show_nat.simps digit_char_def)

lemma signature_in_caller_params_query:
  "buildQueryString (allParams (Some [(''signature'', JStr ''x'')]) (JNum 1700000000000))
     = ''signature=x&timestamp=1700000000000&recvWindow=5000''"
  by (simp add: query_eval allParams_def get_prop_def js_or_def show_nat_timestamp show_nat_5000)

text \<open>
  A caller's parameter named \<^verbatim>\<open>signature\<close> is merged like any other, and is then a
  field of the string that is signed.
\<close>

theorem signature_field_in_signed_string:
  "buildQueryString (allParams (Some [(''signature'', JStr ''x'')]) (JNum 1700000000000))
     = ''signature=x&timestamp=1700000000000&recvWindow=5000''
   \<and> ''signature''
       \<in> set (field_names
                 (buildQueryString
                    (allParams (Some [(''signature'', JStr ''x'')]) (JNum 1700000000000))))"
  using signature_in_caller_params_query
    signature_field_iff[of "Some [(''signature'', JStr ''x'')]" "JNum 1700000000000"]
  by (simp add: caller_params_def present_entries_def absent_def)

section \<open>The envelope\<close>

lemma signedRequest_first:
  "\<exists>rest. snd (signedRequest pf config method endpoint params sent) = sent @ time_request # rest"
proof (cases "getServerTime pf sent")
  case (Pair r sent1)
  then have s1: "sent1 = sent @ [time_request]" by (rule getServerTime_sent')
  show ?thesis
  proof (cases r)
    case (Inl e)
    then show ?thesis using Pair s1 by (simp add: signedRequest_def)
  next
    case (Inr T)
    show ?thesis
    proof (cases "hmacSha256Hex (secretKey config) (buildQueryString (allParams params T))")
      case (Inl e)
      then show ?thesis using Pair Inr s1 by (simp add: signedRequest_def)
    next
      case h: (Inr h)
      then show ?thesis using Pair Inr s1
        by (simp add: signedRequest_def fetch_def Let_def split: option.splits)
    qed
  qed
qed

lemma allParams_timestamp: "get_prop (allParams params T) ''timestamp'' = T"
  by (simp add: allParams_def get_prop_set_prop_other get_prop_set_prop_same)

lemma allParams_recvWindow:
  "get_prop (allParams params T) ''recvWindow''
     = (let r = get_prop (caller_params params) ''recvWindow'' in if truthy r then r else JNum 5000)"
proof -
  have e: "get_prop [] ''recvWindow'' = JUndefined" by (simp add: get_prop_def)
  have "get_prop (allParams params T) ''recvWindow''
          = js_or (case params of None \<Rightarrow> JUndefined | Some ps \<Rightarrow> get_prop ps ''recvWindow'')
              (JNum 5000)"
    unfolding allParams_def by (rule get_prop_set_prop_same)
  then show ?thesis using e
    by (cases params) (simp_all add: js_or_def caller_params_def)
qed

lemma allParams_other:
  assumes "k \<noteq> ''timestamp''" and "k \<noteq> ''recvWindow''"
  shows "get_prop (allParams params T) k = get_prop (caller_params params) k"
  unfolding allParams_def caller_params_def
  by (subst get_prop_set_prop_other[OF assms(2)], subst get_prop_set_prop_other[OF assms(1)], rule refl)

text \<open>
  Claim C4, amended. The first request of every signed call is the server-time
  request, which has no header and no body. The envelope for server time \<open>T\<close> has
  \<open>T\<close> as its \<^verbatim>\<open>timestamp\<close>, the caller's \<^verbatim>\<open>recvWindow\<close> when that value is truthy and
  5000 otherwise, and the caller's value under every other key. When the time fetch
  yields \<open>T\<close> (and the secret is not empty), the second and last request is the signed
  request of that envelope.
\<close>

theorem signed_envelope_time_and_window:
  "(\<exists>rest. snd (signedRequest pf config method endpoint params sent) = sent @ time_request # rest)
   \<and> req_headers time_request = [] \<and> req_body time_request = None
   \<and> (let env = allParams params T;
            r = get_prop (caller_params params) ''recvWindow''
        in get_prop env ''timestamp'' = T
         \<and> get_prop env ''recvWindow'' = (if truthy r then r else JNum 5000)
         \<and> (\<forall>k. k \<noteq> ''timestamp'' \<and> k \<noteq> ''recvWindow'' \<longrightarrow>
                get_prop env k = get_prop (caller_params params) k))
   \<and> (getServerTime pf sent = (Inr T, sent1) \<and> secretKey config \<noteq> [] \<longrightarrow>
        snd (signedRequest pf config method endpoint params sent)
          = sent @ [time_request, signed_request_at config method endpoint params T])"
proof -
  have "snd (signedRequest pf config method endpoint params sent)
          = sent @ [time_request, signed_request_at config method endpoint params T]"
    if "getServerTime pf sent = (Inr T, sent1)" "secretKey config \<noteq> []"
    using signedRequest_run[OF that, of "method" "endpoint" "params"] getServerTime_sent'[OF that(1)]
    by (simp add: Let_def signed_request_at_def)
  moreover have "req_headers time_request = [] \<and> req_body time_request = None"
    by (simp add: time_request_def)
  ultimately show ?thesis
    using signedRequest_first[of pf config "method" "endpoint" "params" sent]
      allParams_timestamp[of params T] allParams_recvWindow[of params T]
      allParams_other[of _ params T]
    by (simp add: Let_def)
qed

theorem signed_envelope_time_and_window_witness:
  "get_prop (allParams (Some [(''symbol'', JStr ''BTCUSDT''), (''recvWindow'', JNum 3000)])
        (JNum 1700000000000)) ''timestamp'' = JNum 1700000000000
   \<and> get_prop (allParams (Some [(''symbol'', JStr ''BTCUSDT''), (''recvWindow'', JNum 3000)])
        (JNum 1700000000000)) ''recvWindow'' = JNum 3000
   \<and> snd (signedRequest (sim_platform (time_then time_response)) sim_config ''GET''
          ''/api/v3/account'' (Some [(''symbol'', JStr ''BTCUSDT''), (''recvWindow'', JNum 3000)]) [])
       = [time_request,
          signed_request_at sim_config ''GET'' ''/api/v3/account''
            (Some [(''symbol'', JStr ''BTCUSDT''), (''recvWindow'', JNum 3000)])
            (JNum 1700000000000)]"
  using signed_envelope_time_and_window[of "sim_platform (time_then time_response)" sim_config
      "''GET''" "''/api/v3/account''"
      "Some [(''symbol'', JStr ''BTCUSDT''), (''recvWindow'', JNum 3000)]" "[]"
      "JNum 1700000000000" "[time_request]"]
    sim_getServerTime[of time_response] sim_secret
  by (simp add: Let_def caller_params_def get_prop_def)

lemma recvWindow_zero_query:
  "buildQueryString (allParams (Some [(''recvWindow'', JNum 0)]) (JNum 1700000000000))
     = ''recvWindow=5000&timestamp=1700000000000''"
  by (simp add: query_eval allParams_def get_prop_def js_or_def show_nat_timestamp show_nat_5000)

text \<open>
  A caller's \<^verbatim>\<open>recvWindow\<close> of 0 is falsy: the envelope takes 5000, where \<^verbatim>\<open>??\<close> would
  have kept 0.
\<close>

theorem recvWindow_zero_replaced:
  "get_prop (allParams (Some [(''recvWindow'', JNum 0)]) (JNum 1700000000000)) ''recvWindow''
     = JNum 5000
   \<and> js_nullish (get_prop [(''recvWindow'', JNum 0)] ''recvWindow'') (JNum 5000) = JNum 0
   \<and> buildQueryString (allParams (Some [(''recvWindow'', JNum 0)]) (JNum 1700000000000))
       = ''recvWindow=5000&timestamp=1700000000000''"
  using recvWindow_zero_query
  by (simp add: allParams_def get_prop_def js_or_def js_nullish_def)

section \<open>Dispatch by method\<close>

lemma hmacSha256Hex_empty: "hmacSha256Hex [] d = Inl DataError"
  by (simp add: hmacSha256Hex_def TextEncoder_encode_def)

lemma signedRequest_trace:
  "snd (signedRequest pf config m e params sent) = sent @ [time_request]
   \<or> (\<exists>T. snd (signedRequest pf config m e params sent)
            = sent @ [time_request, signed_request_at config m e params T])"
proof (cases "getServerTime pf sent")
  case (Pair r sent1)
  then have s1: "sent1 = sent @ [time_request]" by (rule getServerTime_sent')
  show ?thesis
  proof (cases r)
    case (Inl err)
    then show ?thesis using Pair s1 by (simp add: signedRequest_def)
  next
    case (Inr T)
    show ?thesis
    proof (cases "secretKey config = []")
      case True
      then show ?thesis using Pair Inr s1 by (simp add: signedRequest_def hmacSha256Hex_empty)
    next
      case False
      have "getServerTime pf sent = (Inr T, sent1)" using Pair Inr by simp
      from signedRequest_run[OF this False, of m e params]
      have "snd (signedRequest pf config m e params sent)
              = sent @ [time_request, signed_request_at config m e params T]"
        using s1 by (simp add: Let_def signed_request_at_def)
      then show ?thesis by blast
    qed
  qed
qed

lemma signed_request_at_shape:
  "let Q = buildQueryString (allParams params T);
       signedQs = Q @ ''&signature='' @ sign_spec (secretKey config) Q;
       req = signed_request_at config m e params T
   in req_method req = m
    \<and> (m = ''GET'' \<or> m = ''DELETE'' \<longrightarrow>
          req_url req = baseUrl @ e @ ''?'' @ signedQs \<and> req_body req = None)
    \<and> (m = ''POST'' \<longrightarrow>
          req_url req = baseUrl @ e \<and> req_body req = Some signedQs
          \<and> map_of (req_headers req) ''Content-Type'' = Some ''application/x-www-form-urlencoded'')
    \<and> map_of (req_headers req) ''X-MBX-APIKEY'' = Some (apiKey config)"
  by (auto simp: Let_def signed_request_at_def signed_wire_request_def)

text \<open>
  Claim C5. A signed call sends the server-time request and then at most one more
  request, which is the signed request for some server time; it does send it when the
  time fetch succeeds and the secret is not empty. That request is built by method: for
  GET and DELETE the signed query string is the query of the URL and there is no body;
  for POST the URL has no query, the body is the signed query string and the content
  type is \<^verbatim>\<open>application/x-www-form-urlencoded\<close>; in every case the API-key header is set.
\<close>

theorem signed_dispatch_by_method:
  "(snd (signedRequest pf config method endpoint params sent) = sent @ [time_request]
    \<or> (\<exists>T. snd (signedRequest pf config method endpoint params sent)
             = sent @ [time_request, signed_request_at config method endpoint params T]))
   \<and> (getServerTime pf sent = (Inr T, sent1) \<and> secretKey config \<noteq> [] \<longrightarrow>
        snd (signedRequest pf config method endpoint params sent)
          = sent @ [time_request, signed_request_at config method endpoint params T])
   \<and> (let Q = buildQueryString (allParams params T);
            signedQs = Q @ ''&signature='' @ sign_spec (secretKey config) Q;
            req = signed_request_at config method endpoint params T
        in req_method req = method
         \<and> (method = ''GET'' \<or> method = ''DELETE'' \<longrightarrow>
               req_url req = baseUrl @ endpoint @ ''?'' @ signedQs \<and> req_body req = None)
         \<and> (method = ''POST'' \<longrightarrow>
               req_url req = baseUrl @ endpoint \<and> req_body req = Some signedQs
               \<and> map_of (req_headers req) ''Content-Type''
                   = Some ''application/x-www-form-urlencoded'')
         \<and> map_of (req_headers req) ''X-MBX-APIKEY'' = Some (apiKey config))"
proof -
  have "snd (signedRequest pf config method endpoint params sent)
          = sent @ [time_request, signed_request_at config method endpoint params T]"
    if "getServerTime pf sent = (Inr T, sent1)" "secretKey config \<noteq> []"
    using signedRequest_run[OF that, of "method" "endpoint" "params"]
      getServerTime_sent'[OF that(1)]
    by (simp add: Let_def signed_request_at_def)
  then show ?thesis
    using signedRequest_trace[of pf config "method" "endpoint" "params" sent]
      signed_request_at_shape[of params T config "method" "endpoint"]
    by blast
qed

theorem signed_dispatch_by_method_witness:
  "snd (signedRequest (sim_platform (time_then time_response)) sim_config ''POST''
        ''/api/v3/order/test'' (Some [(''symbol'', JStr ''BTCUSDT'')]) [])
     = [time_request,
        signed_request_at sim_config ''POST'' ''/api/v3/order/test''
          (Some [(''symbol'', JStr ''BTCUSDT'')]) (JNum 1700000000000)]
   \<and> req_body (signed_request_at sim_config ''POST'' ''/api/v3/order/test''
          (Some [(''symbol'', JStr ''BTCUSDT'')]) (JNum 1700000000000))
     = Some (buildQueryString (allParams (Some [(''symbol'', JStr ''BTCUSDT'')]) (JNum 1700000000000))
             @ ''&signature=''
             @ sign_spec (secretKey sim_config)
                 (buildQueryString
                    (allParams (Some [(''symbol'', JStr ''BTCUSDT'')]) (JNum 1700000000000))))
   \<and> req_body (signed_request_at sim_config ''GET'' ''/api/v3/account'' None (JNum 1700000000000))
     = None"
  using signed_dispatch_by_method[of "sim_platform (time_then time_response)" sim_config
      "''POST''" "''/api/v3/order/test''" "Some [(''symbol'', JStr ''BTCUSDT'')]" "[]"
      "JNum 1700000000000" "[time_request]"]
    signed_dispatch_by_method[of "sim_platform (time_then time_response)" sim_config
      "''GET''" "''/api/v3/account''" None "[]" "JNum 1700000000000" "[time_request]"]
    sim_getServerTime[of time_response] sim_secret
  by (simp add: Let_def)

section \<open>The caller's timestamp\<close>





section \<open>Responses with a success status\<close>

lemma publicGet_answer:
  assumes "remote pf sent (public_request endpoint params) = Some r"
  shows "publicGet pf endpoint params sent =
     ((if \<not> ok r then Inl (api_error pf ''message'' r)
       else (case JSON_parse pf (body_text r) of None \<Rightarrow> Inl SyntaxError | Some v \<Rightarrow> Inr v)),
      sent @ [public_request endpoint params])"
  using assms by (simp add: publicGet_run public_request_def Let_def)

lemma userStreamRequest_answer:
  assumes "remote pf sent (user_stream_request config method endpoint params) = Some r"
  shows "userStreamRequest pf config method endpoint params sent =
     ((if \<not> ok r then Inl (api_error pf ''code'' r) else read_success pf r),
      sent @ [user_stream_request config method endpoint params])"
  using assms by (simp add: userStreamRequest_run user_stream_request_def Let_def)

lemma signedRequest_answer:
  assumes "getServerTime pf sent = (Inr T, sent1)" and "secretKey config \<noteq> []"
    and "remote pf sent1 (signed_request_at config method endpoint params T) = Some r"
  shows "signedRequest pf config method endpoint params sent =
     ((if \<not> ok r then Inl (api_error pf ''code'' r) else read_success pf r),
      sent1 @ [signed_request_at config method endpoint params T])"
  using assms(3) signedRequest_run[OF assms(1,2), of "method" "endpoint" "params"]
  by (simp add: signed_request_at_def Let_def)

lemma read_success_empty: "body_text r = [] \<Longrightarrow> read_success pf r = Inr (JObj [])"
  by (simp add: read_success_def)

lemma read_success_unparseable:
  "body_text r \<noteq> [] \<Longrightarrow> JSON_parse pf (body_text r) = None \<Longrightarrow> read_success pf r = Inl SyntaxError"
  by (simp add: read_success_def)

lemma userStreamRequest_success:
  assumes "remote pf sent (user_stream_request config method endpoint params) = Some r" and "ok r"
  shows "(body_text r = [] \<longrightarrow>
            fst (userStreamRequest pf config method endpoint params sent) = Inr (JObj []))
       \<and> (body_text r \<noteq> [] \<and> JSON_parse pf (body_text r) = None \<longrightarrow>
            fst (userStreamRequest pf config method endpoint params sent) = Inl SyntaxError)"
  using userStreamRequest_answer[OF assms(1)] assms(2)
  by (simp add: read_success_empty read_success_unparseable)

lemma signedRequest_success:
  assumes "getServerTime pf sent = (Inr T, sent1)" and "secretKey config \<noteq> []"
    and "remote pf sent1 (signed_request_at config method endpoint params T) = Some r" and "ok r"
  shows "(body_text r = [] \<longrightarrow>
            fst (signedRequest pf config method endpoint params sent) = Inr (JObj []))
       \<and> (body_text r \<noteq> [] \<and> JSON_parse pf (body_text r) = None \<longrightarrow>
            fst (signedRequest pf config method endpoint params sent) = Inl SyntaxError)"
  using signedRequest_answer[OF assms(1,2,3)] assms(4)
  by (simp add: read_success_empty read_success_unparseable)

lemma testOrder_empty_body:
  assumes "getServerTime pf sent = (Inr T, sent1)" and "secretKey config \<noteq> []"
    and "remote pf sent1 (signed_request_at config ''POST'' ''/api/v3/order/test'' (Some P) T)
           = Some r"
    and "status r = 200" and "body_text r = []"
  shows "fst (invoke pf config (testOrder P) sent) = Inr (JObj [])"
  using signedRequest_answer[OF assms(1,2,3)] assms(4,5)
  by (simp add: read_success_empty ok_def)

text \<open>
  Claim C6. When the response to a user-stream request, or to the signed request of a
  signed call, has a success status: an empty body gives the empty object, whatever
  \<^verbatim>\<open>JSON.parse\<close> would do with the empty string; a body that is not empty and that
  \<^verbatim>\<open>JSON.parse\<close> rejects gives an error. The test-order call returns the empty object
  when the remote answers 200 with an empty body.
\<close>

theorem empty_body_is_empty_object:
  "(remote pf sent (user_stream_request config method endpoint params) = Some r \<and> ok r \<longrightarrow>
      (body_text r = [] \<longrightarrow>
         fst (userStreamRequest pf config method endpoint params sent) = Inr (JObj []))
    \<and> (body_text r \<noteq> [] \<and> JSON_parse pf (body_text r) = None \<longrightarrow>
         fst (userStreamRequest pf config method endpoint params sent) = Inl SyntaxError))
   \<and> (getServerTime pf sent = (Inr T, sent1) \<and> secretKey config \<noteq> []
        \<and> remote pf sent1 (signed_request_at config method endpoint params T) = Some r \<and> ok r \<longrightarrow>
      (body_text r = [] \<longrightarrow>
         fst (signedRequest pf config method endpoint params sent) = Inr (JObj []))
    \<and> (body_text r \<noteq> [] \<and> JSON_parse pf (body_text r) = None \<longrightarrow>
         fst (signedRequest pf config method endpoint params sent) = Inl SyntaxError))
   \<and> (getServerTime pf sent = (Inr T, sent1) \<and> secretKey config \<noteq> []
        \<and> remote pf sent1 (signed_request_at config ''POST'' ''/api/v3/order/test'' (Some P) T)
            = Some r
        \<and> status r = 200 \<and> body_text r = [] \<longrightarrow>
      fst (invoke pf config (testOrder P) sent) = Inr (JObj []))"
  using userStreamRequest_success[of pf sent config "method" "endpoint" "params" r]
    signedRequest_success[of pf sent T sent1 config "method" "endpoint" "params" r]
    testOrder_empty_body[of pf sent T sent1 config P r]
  by blast


lemma sim_remote_answer_all: "remote (sim_platform (answer_all r)) sent req = Some r"
  by (simp add: sim_platform_def answer_all_def)

lemma sim_remote_time_then:
  "req_method req \<noteq> ''GET'' \<Longrightarrow> remote (sim_platform (time_then r)) sent req = Some r"
  by (auto simp: sim_platform_def time_then_def time_request_def)

lemma signed_request_at_method:
  "req_method (signed_request_at config m endpoint params T) = m"
  by (simp add: signed_request_at_def signed_wire_request_def Let_def)

lemma sim_parse_html: "JSON_parse (sim_platform srv) ''<html></html>'' = None"
  by (simp add: sim_platform_def sim_parse_def time_body_def invalid_symbol_body_def
      code_only_body_def quoted_def)

theorem empty_body_is_empty_object_witness:
  "fst (invoke (sim_platform (time_then empty_ok_response)) sim_config
          (testOrder [(''symbol'', JStr ''BTCUSDT'')]) []) = Inr (JObj [])
   \<and> fst (userStreamRequest (sim_platform (answer_all empty_ok_response)) sim_config ''PUT''
          ''/api/v3/userDataStream'' (Some [(''listenKey'', JStr ''abc'')]) []) = Inr (JObj [])
   \<and> fst (userStreamRequest (sim_platform (answer_all html_ok_response)) sim_config ''PUT''
          ''/api/v3/userDataStream'' (Some [(''listenKey'', JStr ''abc'')]) []) = Inl SyntaxError"
proof -
  have t: "remote (sim_platform (time_then empty_ok_response)) [time_request]
             (signed_request_at sim_config ''POST'' ''/api/v3/order/test''
                (Some [(''symbol'', JStr ''BTCUSDT'')]) (JNum 1700000000000))
           = Some empty_ok_response"
    by (rule sim_remote_time_then) (simp add: signed_request_at_method)
  have "fst (invoke (sim_platform (time_then empty_ok_response)) sim_config
          (testOrder [(''symbol'', JStr ''BTCUSDT'')]) []) = Inr (JObj [])"
    using empty_body_is_empty_object[of "sim_platform (time_then empty_ok_response)" "[]"
        sim_config "''POST''" "''/api/v3/order/test''" "Some [(''symbol'', JStr ''BTCUSDT'')]"
        empty_ok_response "JNum 1700000000000" "[time_request]" "[(''symbol'', JStr ''BTCUSDT'')]"]
      sim_getServerTime[of empty_ok_response] sim_secret t
    by (simp add: empty_ok_response_def)
  moreover have "fst (userStreamRequest (sim_platform (answer_all empty_ok_response)) sim_config
      ''PUT'' ''/api/v3/userDataStream'' (Some [(''listenKey'', JStr ''abc'')]) []) = Inr (JObj [])"
    using empty_body_is_empty_object[of "sim_platform (answer_all empty_ok_response)" "[]"
        sim_config "''PUT''" "''/api/v3/userDataStream''" "Some [(''listenKey'', JStr ''abc'')]"
        empty_ok_response]
    by (simp add: sim_remote_answer_all ok_def empty_ok_response_def)
  moreover have "fst (userStreamRequest (sim_platform (answer_all html_ok_response)) sim_config
      ''PUT'' ''/api/v3/userDataStream'' (Some [(''listenKey'', JStr ''abc'')]) []) = Inl SyntaxError"
    using empty_body_is_empty_object[of "sim_platform (answer_all html_ok_response)" "[]"
        sim_config "''PUT''" "''/api/v3/userDataStream''" "Some [(''listenKey'', JStr ''abc'')]"
        html_ok_response]
    by (simp add: sim_remote_answer_all ok_def html_ok_response_def sim_parse_html)
  ultimately show ?thesis by blast
qed

section \<open>Responses that are not ok\<close>

lemma api_error_unparseable:
  "JSON_parse pf (body_text r) = None \<Longrightarrow>
     api_error pf alt r = Error (api_error_prefix r @ statusText r)"
  by (simp add: api_error_def error_detail_def get_prop_def js_or_def api_error_prefix_def)

lemma api_error_msg:
  "JSON_parse pf (body_text r) = Some (JObj d) \<Longrightarrow> truthy (get_prop d ''msg'') \<Longrightarrow>
     api_error pf alt r = Error (api_error_prefix r @ String (get_prop d ''msg''))"
  by (simp add: api_error_def error_detail_def api_error_prefix_def)

lemma api_error_alt:
  "JSON_parse pf (body_text r) = Some (JObj d) \<Longrightarrow> \<not> truthy (get_prop d ''msg'') \<Longrightarrow>
     truthy (get_prop d alt) \<Longrightarrow>
     api_error pf alt r = Error (api_error_prefix r @ String (get_prop d alt))"
  by (simp add: api_error_def error_detail_def api_error_prefix_def js_or_def)

lemma api_error_fallback:
  "JSON_parse pf (body_text r) = Some (JObj d) \<Longrightarrow> \<not> truthy (get_prop d ''msg'') \<Longrightarrow>
     \<not> truthy (get_prop d alt) \<Longrightarrow>
     api_error pf alt r = Error (api_error_prefix r @ statusText r)"
  by (simp add: api_error_def error_detail_def api_error_prefix_def js_or_def)

lemma api_error_carries_status:
  assumes "JSON_parse pf (body_text r) \<noteq> Some JNull"
    and "JSON_parse pf (body_text r) \<noteq> Some JUndefined"
  shows "\<exists>detail. api_error pf alt r = Error (api_error_prefix r @ detail)"
proof (cases "JSON_parse pf (body_text r)")
  case None
  then show ?thesis using api_error_unparseable by blast
next
  case (Some v)
  then have "v \<noteq> JNull" "v \<noteq> JUndefined" using assms by auto
  then have "\<exists>x. error_detail v alt (statusText r) = Inr x"
    by (cases v) (simp_all add: error_detail_def)
  then show ?thesis using Some by (auto simp: api_error_def api_error_prefix_def)
qed

lemma show_nat_400: "show_nat 400 = ''400''"
  by (simp add: show_nat.simps digit_char_def)

lemma api_error_invalid_symbol:
  assumes "status r = 400"
    and "JSON_parse pf (body_text r)
           = Some (JObj [(''code'', JNum (- 1121)), (''msg'', JStr ''Invalid symbol.'')])"
  shows "api_error pf alt r = Error ''Binance API Error 400: Invalid symbol.''"
  using api_error_msg[OF assms(2), of alt] assms(1)
  by (simp add: get_prop_def api_error_prefix_def show_nat_400)

lemma not_ok_raises:
  assumes "\<not> ok r"
  shows "(remote pf sent (public_request endpoint params) = Some r \<longrightarrow>
            publicGet pf endpoint params sent
              = (Inl (api_error pf ''message'' r), sent @ [public_request endpoint params]))
       \<and> (remote pf sent (user_stream_request config m endpoint params) = Some r \<longrightarrow>
            userStreamRequest pf config m endpoint params sent
              = (Inl (api_error pf ''code'' r),
                 sent @ [user_stream_request config m endpoint params]))
       \<and> (getServerTime pf sent = (Inr T, sent1) \<and> secretKey config \<noteq> []
            \<and> remote pf sent1 (signed_request_at config m endpoint params T) = Some r \<longrightarrow>
            signedRequest pf config m endpoint params sent
              = (Inl (api_error pf ''code'' r),
                 sent1 @ [signed_request_at config m endpoint params T]))"
  using assms publicGet_answer[of pf sent endpoint params r]
    userStreamRequest_answer[of pf sent config m endpoint params r]
    signedRequest_answer[of pf sent T sent1 config m endpoint params r]
  by simp

text \<open>
  When the response is not ok, each of the three modes raises the error \<open>api_error\<close> of
  that response. A 400 with \<^verbatim>\<open>{"code":-1121,"msg":"Invalid symbol."}\<close> gives
  \<^verbatim>\<open>Binance API Error 400: Invalid symbol.\<close> in the public and in the signed mode.
\<close>

lemma sim_parse_invalid_symbol:
  "JSON_parse (sim_platform srv) invalid_symbol_body
     = Some (JObj [(''code'', JNum (- 1121)), (''msg'', JStr ''Invalid symbol.'')])"
  by (simp add: sim_platform_def sim_parse_def time_body_def invalid_symbol_body_def quoted_def)

lemma sim_parse_code_only:
  "JSON_parse (sim_platform srv) code_only_body = Some (JObj [(''code'', JNum (- 1121))])"
  by (simp add: sim_platform_def sim_parse_def time_body_def invalid_symbol_body_def
      code_only_body_def quoted_def)

lemma sim_parse_null: "JSON_parse (sim_platform srv) ''null'' = Some JNull"
  by (simp add: sim_platform_def sim_parse_def time_body_def invalid_symbol_body_def
      code_only_body_def quoted_def)

lemma bad_request_not_ok: "\<not> ok (bad_request b)"
  by (simp add: ok_def bad_request_def)

lemma invalid_symbol_surfaces:
  "publicGet (sim_platform (answer_all (bad_request invalid_symbol_body))) ''/api/v3/depth''
       (Some [(''symbol'', JStr ''BTCUSD'')]) []
     = (Inl (Error ''Binance API Error 400: Invalid symbol.''),
        [public_request ''/api/v3/depth'' (Some [(''symbol'', JStr ''BTCUSD'')])])
   \<and> fst (signedRequest (sim_platform (time_then (bad_request invalid_symbol_body))) sim_config
          ''POST'' ''/api/v3/order'' (Some [(''symbol'', JStr ''BTCUSD'')]) [])
     = Inl (Error ''Binance API Error 400: Invalid symbol.'')"
proof -
  let ?r = "bad_request invalid_symbol_body"
  have t: "remote (sim_platform (time_then ?r)) [time_request]
             (signed_request_at sim_config ''POST'' ''/api/v3/order''
                (Some [(''symbol'', JStr ''BTCUSD'')]) (JNum 1700000000000)) = Some ?r"
    by (rule sim_remote_time_then) (simp add: signed_request_at_method)
  have b: "status ?r = 400" "body_text ?r = invalid_symbol_body"
    by (simp_all add: bad_request_def)
  have e: "api_error (sim_platform srv) alt ?r = Error ''Binance API Error 400: Invalid symbol.''"
    for srv alt
    by (rule api_error_invalid_symbol) (simp_all add: b sim_parse_invalid_symbol)
  have "publicGet (sim_platform (answer_all ?r)) ''/api/v3/depth''
       (Some [(''symbol'', JStr ''BTCUSD'')]) []
     = (Inl (Error ''Binance API Error 400: Invalid symbol.''),
        [public_request ''/api/v3/depth'' (Some [(''symbol'', JStr ''BTCUSD'')])])"
    using publicGet_answer[of "sim_platform (answer_all ?r)" "[]" "''/api/v3/depth''"
        "Some [(''symbol'', JStr ''BTCUSD'')]" ?r]
    by (simp add: sim_remote_answer_all bad_request_not_ok e)
  moreover have "fst (signedRequest (sim_platform (time_then ?r)) sim_config
          ''POST'' ''/api/v3/order'' (Some [(''symbol'', JStr ''BTCUSD'')]) [])
     = Inl (Error ''Binance API Error 400: Invalid symbol.'')"
    using signedRequest_answer[OF sim_getServerTime[of ?r] sim_secret t]
    by (simp add: bad_request_not_ok e)
  ultimately show ?thesis by blast
qed

lemma show_nat_1121: "show_nat 1121 = ''1121''"
  by (simp add: show_nat.simps digit_char_def)

lemma api_error_code_only_public:
  "api_error (sim_platform srv) ''message'' (bad_request code_only_body)
     = Error ''Binance API Error 400: Bad Request''"
  using api_error_fallback[of "sim_platform srv" "bad_request code_only_body"
      "[(''code'', JNum (- 1121))]" "''message''"]
  by (simp add: sim_parse_code_only bad_request_def get_prop_def api_error_prefix_def show_nat_400)

lemma api_error_code_only_sibling:
  "api_error (sim_platform srv) ''code'' (bad_request code_only_body)
     = Error ''Binance API Error 400: -1121''"
  using api_error_alt[of "sim_platform srv" "bad_request code_only_body"
      "[(''code'', JNum (- 1121))]" "''code''"]
  by (simp add: sim_parse_code_only bad_request_def get_prop_def api_error_prefix_def show_nat_400
      show_int_def show_nat_1121)

lemma api_error_null: "api_error (sim_platform srv) alt (bad_request ''null'') = TypeError"
  by (simp add: api_error_def error_detail_def sim_parse_null bad_request_def)

text \<open>
  Claim C7. The claim holds of the signed and of the user-stream mode for an error body
  that parses to an object, and fails in two places. For a 400 whose body is
  \<^verbatim>\<open>{"code":-1121}\<close>, \<^verbatim>\<open>publicGet\<close> raises \<^verbatim>\<open>Binance API Error 400: Bad Request\<close>: it reads
  \<^verbatim>\<open>error.message\<close> where the two other modes read \<^verbatim>\<open>error.code\<close>, and these raise
  \<^verbatim>\<open>Binance API Error 400: -1121\<close> for the same response. For a 400 whose body is
  \<^verbatim>\<open>null\<close>, which parses, every mode raises a \<^verbatim>\<open>TypeError\<close> that carries neither the
  status nor the status text: the \<^verbatim>\<open>catch\<close> guards the parse only.
\<close>

theorem error_without_code_or_status:
  "fst (publicGet (sim_platform (answer_all (bad_request code_only_body))) ''/api/v3/depth''
          (Some [(''symbol'', JStr ''BTCUSD'')]) [])
     = Inl (Error ''Binance API Error 400: Bad Request'')
   \<and> fst (signedRequest (sim_platform (time_then (bad_request code_only_body))) sim_config
          ''POST'' ''/api/v3/order'' (Some [(''symbol'', JStr ''BTCUSD'')]) [])
     = Inl (Error ''Binance API Error 400: -1121'')
   \<and> fst (userStreamRequest (sim_platform (answer_all (bad_request code_only_body))) sim_config
          ''PUT'' ''/api/v3/userDataStream'' (Some [(''listenKey'', JStr ''abc'')]) [])
     = Inl (Error ''Binance API Error 400: -1121'')
   \<and> fst (publicGet (sim_platform (answer_all (bad_request ''null''))) ''/api/v3/depth''
          (Some [(''symbol'', JStr ''BTCUSD'')]) [])
     = Inl TypeError
   \<and> fst (userStreamRequest (sim_platform (answer_all (bad_request ''null''))) sim_config ''PUT''
          ''/api/v3/userDataStream'' (Some [(''listenKey'', JStr ''abc'')]) [])
     = Inl TypeError"
proof -
  let ?c = "bad_request code_only_body"
  let ?n = "bad_request ''null''"
  have t: "remote (sim_platform (time_then ?c)) [time_request]
             (signed_request_at sim_config ''POST'' ''/api/v3/order''
                (Some [(''symbol'', JStr ''BTCUSD'')]) (JNum 1700000000000)) = Some ?c"
    by (rule sim_remote_time_then) (simp add: signed_request_at_method)
  have "fst (publicGet (sim_platform (answer_all ?c)) ''/api/v3/depth''
          (Some [(''symbol'', JStr ''BTCUSD'')]) [])
     = Inl (Error ''Binance API Error 400: Bad Request'')"
    using publicGet_answer[of "sim_platform (answer_all ?c)" "[]" "''/api/v3/depth''"
        "Some [(''symbol'', JStr ''BTCUSD'')]" ?c]
    by (simp add: sim_remote_answer_all bad_request_not_ok api_error_code_only_public)
  moreover have "fst (signedRequest (sim_platform (time_then ?c)) sim_config
          ''POST'' ''/api/v3/order'' (Some [(''symbol'', JStr ''BTCUSD'')]) [])
     = Inl (Error ''Binance API Error 400: -1121'')"
    using signedRequest_answer[OF sim_getServerTime[of ?c] sim_secret t]
    by (simp add: bad_request_not_ok api_error_code_only_sibling)
  moreover have "fst (userStreamRequest (sim_platform (answer_all ?c)) sim_config
          ''PUT'' ''/api/v3/userDataStream'' (Some [(''listenKey'', JStr ''abc'')]) [])
     = Inl (Error ''Binance API Error 400: -1121'')"
    using userStreamRequest_answer[of "sim_platform (answer_all ?c)" "[]" sim_config "''PUT''"
        "''/api/v3/userDataStream''" "Some [(''listenKey'', JStr ''abc'')]" ?c]
    by (simp add: sim_remote_answer_all bad_request_not_ok api_error_code_only_sibling)
  moreover have "fst (publicGet (sim_platform (answer_all ?n)) ''/api/v3/depth''
          (Some [(''symbol'', JStr ''BTCUSD'')]) []) = Inl TypeError"
    using publicGet_answer[of "sim_platform (answer_all ?n)" "[]" "''/api/v3/depth''"
        "Some [(''symbol'', JStr ''BTCUSD'')]" ?n]
    by (simp add: sim_remote_answer_all bad_request_not_ok api_error_null)
  moreover have "fst (userStreamRequest (sim_platform (answer_all ?n)) sim_config
          ''PUT'' ''/api/v3/userDataStream'' (Some [(''listenKey'', JStr ''abc'')]) [])
     = Inl TypeError"
    using userStreamRequest_answer[of "sim_platform (answer_all ?n)" "[]" sim_config "''PUT''"
        "''/api/v3/userDataStream''" "Some [(''listenKey'', JStr ''abc'')]" ?n]
    by (simp add: sim_remote_answer_all bad_request_not_ok api_error_null)
  ultimately show ?thesis by blast
qed

section \<open>The credential gate\<close>

text \<open>
  The check of the credentials is the handler's alone. The client does not look at its
  credentials: a signed call with an empty secret sends the server-time request, and
  fails when it imports the key; a user-stream call sends its request.
\<close>

lemma signedRequest_empty_secret:
  assumes "secretKey config = []"
  shows "snd (signedRequest pf config m e params sent) = sent @ [time_request]"
proof (cases "getServerTime pf sent")
  case (Pair r sent1)
  then have "sent1 = sent @ [time_request]" by (rule getServerTime_sent')
  then show ?thesis using Pair assms
    by (cases r) (simp_all add: signedRequest_def hmacSha256Hex_empty)
qed

lemma signedRequest_empty_secret_result:
  assumes "secretKey config = []"
  shows "fst (signedRequest pf config m e params sent)
           = (case fst (getServerTime pf sent) of Inl err \<Rightarrow> Inl err | Inr T \<Rightarrow> Inl DataError)"
proof (cases "getServerTime pf sent")
  case (Pair r sent1)
  then show ?thesis using assms
    by (cases r) (simp_all add: signedRequest_def hmacSha256Hex_empty)
qed

lemma userStreamRequest_sent:
  "snd (userStreamRequest pf config m e params sent)
     = sent @ [user_stream_request config m e params]"
  by (simp add: userStreamRequest_run user_stream_request_def Let_def)

lemma signedRequest_no_secret:
  "signedRequest (sim_platform (time_then r)) no_secret_config m e params []
     = (Inl DataError, [time_request])"
proof -
  have s: "secretKey no_secret_config = []" by (simp add: no_secret_config_def)
  show ?thesis
    using signedRequest_empty_secret[OF s, of "sim_platform (time_then r)" m e params "[]"]
      signedRequest_empty_secret_result[OF s, of "sim_platform (time_then r)" m e params "[]"]
      sim_getServerTime[of r]
    by (simp add: prod_eq_iff)
qed

lemma dispatch_new_order: "dispatch ''bn_new_order'' args = Inr (newOrder (rest_params args))"
  by (simp add: dispatch_def Let_def)

lemma dispatch_ping: "dispatch ''bn_ping'' args = Inr ping"
  by (simp add: dispatch_def Let_def)

text \<open>
  Claim C8, amended. The handler of a tool that is not public, invoked when the
  effective API key or the effective secret key (the configured one or, when that is
  missing or empty, the one in the arguments) is missing or empty, returns the error
  result that names the two credentials; no request is sent and the cached client is
  untouched. The client itself makes no such check: a signed request of a client whose
  secret key is empty sends exactly the server-time request, and then fails, with the
  error of the time fetch or else with the \<^verbatim>\<open>DataError\<close> of the key import; a
  user-stream request sends its request whatever the credentials are.
\<close>

theorem missing_credentials_fail_locally:
  "(name \<notin> set publicTools
      \<and> (\<not> truthy (js_or (config_apiKey config) (get_prop args ''BINANCE_API_KEY''))
         \<or> \<not> truthy (js_or (config_secretKey config) (get_prop args ''BINANCE_SECRET_KEY'')))
      \<longrightarrow> tool_handler pf config name args client sent
           = (\<lparr>content_text = credentials_required, isError = True\<rparr>, client, sent))
   \<and> (secretKey c = [] \<longrightarrow>
        snd (signedRequest pf c m e params sent) = sent @ [time_request]
        \<and> fst (signedRequest pf c m e params sent)
            = (case fst (getServerTime pf sent) of
                 Inl err \<Rightarrow> Inl err
               | Inr T \<Rightarrow> Inl DataError))
   \<and> snd (userStreamRequest pf c m e params sent) = sent @ [user_stream_request c m e params]"
proof -
  have "name \<notin> set publicTools
      \<and> (\<not> truthy (js_or (config_apiKey config) (get_prop args ''BINANCE_API_KEY''))
         \<or> \<not> truthy (js_or (config_secretKey config) (get_prop args ''BINANCE_SECRET_KEY'')))
      \<longrightarrow> tool_handler pf config name args client sent
           = (\<lparr>content_text = credentials_required, isError = True\<rparr>, client, sent)"
    by (auto simp: tool_handler_def Let_def)
  then show ?thesis
    using signedRequest_empty_secret[of c pf m e params sent]
      signedRequest_empty_secret_result[of c pf m e params sent]
      userStreamRequest_sent[of pf c m e params sent]
    by blast
qed

theorem missing_credentials_fail_locally_witness:
  "tool_handler (sim_platform (time_then empty_ok_response)) (Some no_secret_config)
       ''bn_new_order'' [(''symbol'', JStr ''BTCUSDT''), (''side'', JStr ''BUY'')] None []
     = (\<lparr>content_text = credentials_required, isError = True\<rparr>, None, [])
   \<and> snd (signedRequest (sim_platform (time_then empty_ok_response)) no_secret_config
          ''POST'' ''/api/v3/order'' (Some [(''symbol'', JStr ''BTCUSDT'')]) [])
     = [time_request]
   \<and> fst (signedRequest (sim_platform (time_then empty_ok_response)) no_secret_config
          ''POST'' ''/api/v3/order'' (Some [(''symbol'', JStr ''BTCUSDT'')]) [])
     = Inl DataError"
  using missing_credentials_fail_locally[of "''bn_new_order''" "Some no_secret_config"
      "[(''symbol'', JStr ''BTCUSDT''), (''side'', JStr ''BUY'')]"
      "sim_platform (time_then empty_ok_response)" None "[]" no_secret_config
      "''POST''" "''/api/v3/order''" "Some [(''symbol'', JStr ''BTCUSDT'')]"]
    sim_getServerTime[of empty_ok_response]
  by (simp add: publicTools_def config_apiKey_def config_secretKey_def js_or_def get_prop_def
      no_secret_config_def)

text \<open>
  A client whose pair of credentials has no secret key sends one request when an order
  is placed, and fails after it. The same happens through the handler: the client that
  a public tool has cached with the empty secret of the configuration is used again
  when a later call brings the secret key in its arguments.
\<close>

theorem empty_secret_sends_time_request:
  "invoke (sim_platform (time_then empty_ok_response)) no_secret_config
       (newOrder [(''symbol'', JStr ''BTCUSDT''), (''side'', JStr ''BUY'')]) []
     = (Inl DataError, [time_request])
   \<and> snd (tool_handler (sim_platform (time_then empty_ok_response)) (Some no_secret_config)
          ''bn_ping'' [] None [])
     = (Some no_secret_config, [public_request ''/api/v3/ping'' None])
   \<and> tool_handler (sim_platform (time_then empty_ok_response)) (Some no_secret_config)
       ''bn_new_order''
       [(''symbol'', JStr ''BTCUSDT''), (''side'', JStr ''BUY''),
        (''BINANCE_SECRET_KEY'', JStr ''NhqPtmdSJYdKjVHjA7PZ'')]
       (Some no_secret_config) [public_request ''/api/v3/ping'' None]
     = (\<lparr>content_text = ''Error: platform error'', isError = True\<rparr>,
        Some no_secret_config, [public_request ''/api/v3/ping'' None, time_request])"
proof -
  let ?pf = "sim_platform (time_then empty_ok_response)"
  let ?sent = "[public_request ''/api/v3/ping'' None]"
  let ?p = "Some (rest_params [(''symbol'', JStr ''BTCUSDT''), (''side'', JStr ''BUY''),
        (''BINANCE_SECRET_KEY'', JStr ''NhqPtmdSJYdKjVHjA7PZ'')])"
  have s: "secretKey no_secret_config = []" by (simp add: no_secret_config_def)
  have "invoke ?pf no_secret_config
       (newOrder [(''symbol'', JStr ''BTCUSDT''), (''side'', JStr ''BUY'')]) []
     = (Inl DataError, [time_request])"
    by (simp add: signedRequest_no_secret)
  moreover have "snd (tool_handler ?pf (Some no_secret_config) ''bn_ping'' [] None [])
     = (Some no_secret_config, ?sent)"
    by (simp add: tool_handler_def Let_def publicTools_def config_apiKey_def
        config_secretKey_def js_or_def get_prop_def handleToolCall_def dispatch_ping
        no_secret_config_def publicGet_run public_request_def sim_platform_def time_then_def
        time_request_def empty_ok_response_def ok_def sim_parse_def query_url_def
        split: option.splits)
  moreover have "getServerTime ?pf ?sent = (Inr (JNum 1700000000000), ?sent @ [time_request])"
    by (simp add: getServerTime_def publicGet_run sim_platform_def time_then_def query_url_def
        baseUrl_def time_request_def time_response_def ok_def sim_parse_def get_prop_def)
  then have "signedRequest ?pf no_secret_config ''POST'' ''/api/v3/order'' ?p ?sent
               = (Inl DataError, ?sent @ [time_request])"
    using signedRequest_empty_secret[OF s, of ?pf "''POST''" "''/api/v3/order''" ?p ?sent]
      signedRequest_empty_secret_result[OF s, of ?pf "''POST''" "''/api/v3/order''" ?p ?sent]
    by (simp add: prod_eq_iff)
  then have "tool_handler ?pf (Some no_secret_config) ''bn_new_order''
       [(''symbol'', JStr ''BTCUSDT''), (''side'', JStr ''BUY''),
        (''BINANCE_SECRET_KEY'', JStr ''NhqPtmdSJYdKjVHjA7PZ'')]
       (Some no_secret_config) ?sent
     = (\<lparr>content_text = ''Error: platform error'', isError = True\<rparr>,
        Some no_secret_config, [public_request ''/api/v3/ping'' None, time_request])"
    by (simp add: tool_handler_def Let_def publicTools_def config_apiKey_def
        config_secretKey_def js_or_def get_prop_def handleToolCall_def dispatch_new_order
        no_secret_config_def sim_platform_def)
  ultimately show ?thesis by blast
qed

section \<open>What the dispatch layer forwards\<close>

lemma rest_params_no_fields: "''_fields'' \<notin> fst ` set (rest_params args)"
  by (auto simp: rest_params_def)

lemma rest_params_other: "k \<noteq> ''_fields'' \<Longrightarrow> get_prop (rest_params args) k = get_prop args k"
  by (induction args) (auto simp: rest_params_def get_prop_def)

lemma dispatch_market:
  "dispatch ''bn_ping'' args = Inr ping"
  "dispatch ''bn_server_time'' args = Inr getServerTimePublic"
  "dispatch ''bn_exchange_info'' args = Inr (getExchangeInfo (params_or_undefined (rest_params args)))"
  "dispatch ''bn_order_book'' args = Inr (getOrderBook (rest_params args))"
  "dispatch ''bn_recent_trades'' args = Inr (getRecentTrades (rest_params args))"
  "dispatch ''bn_aggregate_trades'' args = Inr (getAggregateTrades (rest_params args))"
  "dispatch ''bn_klines'' args = Inr (getKlines (rest_params args))"
  "dispatch ''bn_avg_price'' args = Inr (getAvgPrice (rest_params args))"
  "dispatch ''bn_ticker_24hr'' args = Inr (getTicker24hr (params_or_undefined (rest_params args)))"
  "dispatch ''bn_ticker_price'' args = Inr (getTickerPrice (params_or_undefined (rest_params args)))"
  "dispatch ''bn_book_ticker'' args = Inr (getBookTicker (params_or_undefined (rest_params args)))"
  by (simp_all add: dispatch_def Let_def)

lemma dispatch_trading:
  "dispatch ''bn_new_order'' args = Inr (newOrder (rest_params args))"
  "dispatch ''bn_test_order'' args = Inr (testOrder (rest_params args))"
  "dispatch ''bn_query_order'' args = Inr (queryOrder (rest_params args))"
  "dispatch ''bn_cancel_order'' args = Inr (cancelOrder (rest_params args))"
  "dispatch ''bn_cancel_all_orders'' args = Inr (cancelAllOrders (rest_params args))"
  "dispatch ''bn_open_orders'' args = Inr (getOpenOrders (params_or_undefined (rest_params args)))"
  "dispatch ''bn_all_orders'' args = Inr (getAllOrders (rest_params args))"
  "dispatch ''bn_account_info'' args = Inr (getAccountInfo (params_or_undefined (rest_params args)))"
  "dispatch ''bn_my_trades'' args = Inr (getMyTrades (rest_params args))"
  by (simp_all add: dispatch_def Let_def)

lemma dispatch_user_stream:
  "dispatch ''bn_create_listen_key'' args = Inr createListenKey"
  "dispatch ''bn_keepalive_listen_key'' args
     = Inr (keepaliveListenKey (get_prop (rest_params args) ''listenKey''))"
  "dispatch ''bn_close_listen_key'' args
     = Inr (closeListenKey (get_prop (rest_params args) ''listenKey''))"
  by (simp_all add: dispatch_def Let_def)

lemma params_or_undefined_eq:
  "params_or_undefined ps = (if ps = [] then None else Some ps)"
  by (simp add: params_or_undefined_def)

lemma dispatch_required:
  "name \<in> set required_params_tools \<Longrightarrow>
     \<exists>c. dispatch name args = Inr c \<and> forwarded_params c = Some (rest_params args)"
  unfolding required_params_tools_def
  by (auto simp only: set_simps insert_iff empty_iff dispatch_market dispatch_trading
        forwarded_params.simps)

lemma dispatch_optional:
  "name \<in> set optional_params_tools \<Longrightarrow>
     \<exists>c. dispatch name args = Inr c
        \<and> forwarded_params c = (if rest_params args = [] then None else Some (rest_params args))"
  unfolding optional_params_tools_def
  by (auto simp only: set_simps insert_iff empty_iff dispatch_market dispatch_trading
        forwarded_params.simps params_or_undefined_eq)

lemma dispatch_no_params:
  "name \<in> set [''bn_ping'', ''bn_server_time'', ''bn_create_listen_key''] \<Longrightarrow>
     \<exists>c. dispatch name args = Inr c \<and> forwarded_params c = None"
  by (auto simp only: set_simps insert_iff empty_iff dispatch_market dispatch_user_stream
        forwarded_params.simps)

lemma dispatch_listen_key:
  "name \<in> set [''bn_keepalive_listen_key'', ''bn_close_listen_key''] \<Longrightarrow>
     \<exists>c. dispatch name args = Inr c
        \<and> forwarded_params c = Some [(''listenKey'', get_prop args ''listenKey'')]"
proof -
  have "get_prop (rest_params args) ''listenKey'' = get_prop args ''listenKey''"
    by (rule rest_params_other) simp
  then show "name \<in> set [''bn_keepalive_listen_key'', ''bn_close_listen_key''] \<Longrightarrow> ?thesis"
    by (auto simp only: set_simps insert_iff empty_iff dispatch_user_stream
        forwarded_params.simps)
qed

text \<open>
  Claim C9, amended. The twelve tools whose method requires a parameter object
  forward the caller's arguments without \<^verbatim>\<open>_fields\<close>, every other entry unchanged and in
  order; the six tools with optional parameters do the same, forwarding \<^verbatim>\<open>undefined\<close>
  when nothing is left. Ping, server time and create-listen-key forward nothing; the
  other two listen-key tools forward the value of \<^verbatim>\<open>listenKey\<close> alone. \<^verbatim>\<open>_fields\<close> is
  never forwarded.
\<close>

theorem dispatch_forwards_params:
  "(name \<in> set required_params_tools \<longrightarrow>
      (\<exists>c. dispatch name args = Inr c \<and> forwarded_params c = Some (rest_params args)))
   \<and> (name \<in> set optional_params_tools \<longrightarrow>
      (\<exists>c. dispatch name args = Inr c
         \<and> forwarded_params c
             = (if rest_params args = [] then None else Some (rest_params args))))
   \<and> (name \<in> set [''bn_ping'', ''bn_server_time'', ''bn_create_listen_key''] \<longrightarrow>
      (\<exists>c. dispatch name args = Inr c \<and> forwarded_params c = None))
   \<and> (name \<in> set [''bn_keepalive_listen_key'', ''bn_close_listen_key''] \<longrightarrow>
      (\<exists>c. dispatch name args = Inr c
         \<and> forwarded_params c = Some [(''listenKey'', get_prop args ''listenKey'')]))
   \<and> rest_params args = filter (\<lambda>e. fst e \<noteq> ''_fields'') args
   \<and> ''_fields'' \<notin> fst ` set (rest_params args)"
proof -
  have "rest_params args = filter (\<lambda>e. fst e \<noteq> ''_fields'') args"
    by (simp add: rest_params_def case_prod_unfold)
  then show ?thesis
    using dispatch_required[of name args] dispatch_optional[of name args]
      dispatch_no_params[of name args] dispatch_listen_key[of name args]
      rest_params_no_fields[of args]
    by blast
qed

theorem dispatch_forwards_params_witness:
  "dispatch ''bn_order_book''
       [(''symbol'', JStr ''BTCUSDT''), (''_fields'', JStr ''bids''), (''limit'', JNum 100)]
     = Inr (getOrderBook [(''symbol'', JStr ''BTCUSDT''), (''limit'', JNum 100)])
   \<and> dispatch ''bn_account_info'' [(''_fields'', JStr ''balances'')] = Inr (getAccountInfo None)"
  using dispatch_forwards_params[of "''bn_order_book''"
      "[(''symbol'', JStr ''BTCUSDT''), (''_fields'', JStr ''bids''), (''limit'', JNum 100)]"]
    dispatch_forwards_params[of "''bn_account_info''" "[(''_fields'', JStr ''balances'')]"]
  by (simp add: required_params_tools_def optional_params_tools_def rest_params_def
      dispatch_market dispatch_trading params_or_undefined_eq)

text \<open>
  The keep-alive tool forwards \<^verbatim>\<open>listenKey\<close> and drops the rest of the arguments; ping
  forwards none.
\<close>

theorem listen_key_tools_drop_other_params:
  "dispatch ''bn_keepalive_listen_key'' [(''listenKey'', JStr ''abc''), (''symbol'', JStr ''BTCUSDT'')]
     = Inr (keepaliveListenKey (JStr ''abc''))
   \<and> forwarded_params (keepaliveListenKey (JStr ''abc'')) = Some [(''listenKey'', JStr ''abc'')]
   \<and> rest_params [(''listenKey'', JStr ''abc''), (''symbol'', JStr ''BTCUSDT'')]
       = [(''listenKey'', JStr ''abc''), (''symbol'', JStr ''BTCUSDT'')]
   \<and> dispatch ''bn_ping'' [(''symbol'', JStr ''BTCUSDT'')] = Inr ping
   \<and> forwarded_params ping = None"
  by (simp add: dispatch_market dispatch_user_stream rest_params_def get_prop_def)

end
